theory Spec2Isabelle
  imports Complex_Main
begin

section \<open>The rain-soon pipeline of \<^verbatim>\<open>rainsoon_mcp.py\<close>\<close>

text \<open>
  The program chains three network lookups: discovery of the public IP address
  (\<^verbatim>\<open>_get_public_ip\<close>), geolocation of an IP address (the local function
  \<^verbatim>\<open>geolocate\<close>) and a forecast lookup (\<^verbatim>\<open>_fetch_precip_prob\<close>);
  \<^verbatim>\<open>check_for_rain\<close> orchestrates them and shapes the returned dictionary.

  The network is the environment. It is a value of the record \<open>world\<close>; every library
  call that leaves the process asks the world for its outcome and is logged in a trace,
  so that a statement such as ``no geolocation call occurs'' is a statement about the
  trace. The answer of the world may depend on the request and on the number of calls
  made before it: two calls with the same arguments may be answered differently.
\<close>

subsection \<open>Strings\<close>

text \<open>
  A Python \<^verbatim>\<open>str\<close> is a \<open>string\<close>, each \<open>char\<close> standing for the code point of the
  same number (code points from 256 on are not represented). \<open>isspace\<close> holds of
  the code points below 256 for which \<^verbatim>\<open>str.isspace\<close> is true; \<^verbatim>\<open>str.strip()\<close>
  removes them from both ends.
\<close>

definition isspace :: "char \<Rightarrow> bool" where
  "isspace c = (of_char c \<in> {9, 10, 11, 12, 13, 28, 29, 30, 31, 32, 133, 160 :: nat})"

definition strip :: "string \<Rightarrow> string" where
  "strip s = rev (dropWhile isspace (rev (dropWhile isspace s)))"

text \<open>Decimal formatting of an integer, as \<^verbatim>\<open>f"{p}"\<close> does it.\<close>

definition digit_char :: "nat \<Rightarrow> char" where
  "digit_char d = char_of (48 + d)"

fun str_nat :: "nat \<Rightarrow> string" where
  "str_nat n = (if n < 10 then [digit_char n] else str_nat (n div 10) @ [digit_char (n mod 10)])"

declare str_nat.simps [simp del]

definition str_int :: "int \<Rightarrow> string" where
  "str_int i = (if i < 0 then CHR ''-'' # str_nat (nat (- i)) else str_nat (nat i))"

subsection \<open>Exceptions\<close>

text \<open>
  The handlers of the program tell \<^verbatim>\<open>requests.RequestException\<close> (and its
  subclasses, \<^verbatim>\<open>HTTPError\<close> among them) from every other \<^verbatim>\<open>Exception\<close>; the
  program itself raises \<^verbatim>\<open>RuntimeError\<close>. An exception carries the text that
  \<^verbatim>\<open>str(e)\<close> and \<^verbatim>\<open>f"{e}"\<close> give.
\<close>

datatype exn =
    RequestException string
  | RuntimeError string
  | OtherException string

fun str_exn :: "exn \<Rightarrow> string" where
  "str_exn (RequestException m) = m"
| "str_exn (RuntimeError m) = m"
| "str_exn (OtherException m) = m"

fun is_request_exception :: "exn \<Rightarrow> bool" where
  "is_request_exception (RequestException m) = True"
| "is_request_exception (RuntimeError m) = False"
| "is_request_exception (OtherException m) = False"

subsection \<open>Python values\<close>

text \<open>
  The values that \<^verbatim>\<open>r.json()\<close> can return and that the returned dictionary holds.
  \<open>JObj\<close> lists the items of a \<^verbatim>\<open>dict\<close> with string keys, each key once, in
  insertion order. \<open>JNaN\<close> and \<open>JInf\<close> are the floats that are not numbers.
\<close>

datatype json =
    JNull
  | JBool bool
  | JInt int
  | JFloat real
  | JNaN
  | JInf bool
  | JStr string
  | JArr "json list"
  | JObj "(string \<times> json) list"

text \<open>Truth value of an object, as \<^verbatim>\<open>not x\<close> and \<^verbatim>\<open>x if y else z\<close> test it.\<close>

fun truthy :: "json \<Rightarrow> bool" where
  "truthy JNull = False"
| "truthy (JBool b) = b"
| "truthy (JInt n) = (n \<noteq> 0)"
| "truthy (JFloat r) = (r \<noteq> 0)"
| "truthy JNaN = True"
| "truthy (JInf s) = True"
| "truthy (JStr s) = (s \<noteq> [])"
| "truthy (JArr xs) = (xs \<noteq> [])"
| "truthy (JObj kvs) = (kvs \<noteq> [])"

text \<open>
  The operations of the interpreter that can fail in \<^verbatim>\<open>_fetch_precip_prob\<close> when
  the forecast document has an unexpected shape. The text of the exception changes
  with the interpreter's version, and so does the set of strings \<^verbatim>\<open>int()\<close> reads;
  both are taken from the world (\<open>py_text\<close>, \<open>py_int_of_str\<close>).
\<close>

datatype pyfail =
    NoAttributeGet json
  | NotSubscriptable json
  | IndexOutOfRange json
  | NoSuchKey json
  | NoSlice json
  | NotAnInt json

subsection \<open>The world and the trace\<close>

datatype url =
    Url string
  | ForecastUrl real real

record http_response =
  status_code :: nat
  status_error :: string
  body_text :: string
  json_body :: "exn + json"

record geo_result =
  ok :: bool
  latlng :: "(real \<times> real) option"
  city :: "string option"

datatype call =
    HttpGet url
  | GeocoderIp string

record world =
  requests_get :: "nat \<Rightarrow> url \<Rightarrow> exn + http_response"
  geocoder_ip :: "nat \<Rightarrow> string \<Rightarrow> exn + geo_result"
  py_text :: "pyfail \<Rightarrow> string"
  py_int_of_str :: "string \<Rightarrow> int option"

text \<open>
  \<^item> \<open>Url u\<close> is the address \<open>u\<close>; \<open>ForecastUrl lat lng\<close> is the forecast address
    that \<^verbatim>\<open>_fetch_precip_prob\<close> formats from the two coordinates. Coordinates are
    only passed on, never computed with; they are reals here.
  \<^item> \<open>requests_get w n u\<close> is the outcome of \<^verbatim>\<open>requests.get(u, timeout=...)\<close> when
    \<open>n\<close> calls were made before: an exception, or a response. Of a response the
    program reads \<^verbatim>\<open>.text\<close> (\<open>body_text\<close>), calls \<^verbatim>\<open>.raise_for_status()\<close>
    (which looks at the HTTP status, \<open>status_code\<close>; \<open>status_error\<close> is the text of
    the \<^verbatim>\<open>HTTPError\<close> that the library makes of the status, its reason and the
    address) and calls \<^verbatim>\<open>.json()\<close> (\<open>json_body\<close>: an exception, or the
    document).
  \<^item> \<open>geocoder_ip w n ip\<close> is the outcome of \<^verbatim>\<open>geocoder.ip(ip)\<close>. Of the object
    returned the program reads \<^verbatim>\<open>.ok\<close>, \<^verbatim>\<open>.latlng\<close> and \<^verbatim>\<open>.city\<close>. The
    library's \<^verbatim>\<open>latlng\<close> is either empty or a list of the two coordinates:
    \<open>None\<close> is the empty (false) one. A \<open>city\<close> of \<open>None\<close> is the provider leaving
    the city out.
\<close>

type_synonym trace = "call list"

text \<open>
  \<^verbatim>\<open>Response.raise_for_status()\<close> of the library: it raises an \<^verbatim>\<open>HTTPError\<close>, a
  \<^verbatim>\<open>RequestException\<close>, for a client error status (400 to 499) and for a server
  error status (500 to 599), and returns for every other status, the informational
  and redirection ones (1xx, 3xx) included.
\<close>

definition raise_for_status :: "http_response \<Rightarrow> exn + unit" where
  "raise_for_status r =
     (if 400 \<le> status_code r \<and> status_code r < 600
      then Inl (RequestException (status_error r))
      else Inr ())"

subsection \<open>\<^verbatim>\<open>_get_public_ip\<close>\<close>

definition endpoints :: "string list" where
  "endpoints = [''https://api.ipify.org'', ''https://ipinfo.io/ip'', ''https://icanhazip.com'']"

text \<open>
  The loop over the endpoints. A \<^verbatim>\<open>RequestException\<close> is swallowed by the
  \<^verbatim>\<open>except\<close> clause; any other exception leaves the loop and the function.
\<close>

fun try_endpoints :: "world \<Rightarrow> string list \<Rightarrow> trace \<Rightarrow> (exn + string) \<times> trace" where
  "try_endpoints w [] tr =
     (Inl (RuntimeError ''Could not determine public IP from fallback services.''), tr)"
| "try_endpoints w (u # us) tr =
     (case requests_get w (length tr) (Url u) of
        Inl e \<Rightarrow>
          if is_request_exception e then try_endpoints w us (tr @ [HttpGet (Url u)])
          else (Inl e, tr @ [HttpGet (Url u)])
      | Inr r \<Rightarrow>
          let ip = strip (body_text r) in
          if ip \<noteq> [] then (Inr ip, tr @ [HttpGet (Url u)])
          else try_endpoints w us (tr @ [HttpGet (Url u)]))"

definition get_public_ip :: "world \<Rightarrow> trace \<Rightarrow> (exn + string) \<times> trace" where
  "get_public_ip w tr = try_endpoints w endpoints tr"

subsection \<open>\<^verbatim>\<open>_fetch_precip_prob\<close>\<close>

text \<open>\<^verbatim>\<open>d.get(k, dflt)\<close>: only a dictionary has the method.\<close>

definition py_get :: "world \<Rightarrow> json \<Rightarrow> string \<Rightarrow> json \<Rightarrow> exn + json" where
  "py_get w d k dflt =
     (case d of
        JObj kvs \<Rightarrow> Inr (case map_of kvs k of None \<Rightarrow> dflt | Some v \<Rightarrow> v)
      | _ \<Rightarrow> Inl (OtherException (py_text w (NoAttributeGet d))))"

text \<open>\<^verbatim>\<open>x[0]\<close>: the first element of a list, the first character of a string.\<close>

definition py_index0 :: "world \<Rightarrow> json \<Rightarrow> exn + json" where
  "py_index0 w x =
     (case x of
        JArr (y # ys) \<Rightarrow> Inr y
      | JArr [] \<Rightarrow> Inl (OtherException (py_text w (IndexOutOfRange x)))
      | JStr (c # cs) \<Rightarrow> Inr (JStr [c])
      | JStr [] \<Rightarrow> Inl (OtherException (py_text w (IndexOutOfRange x)))
      | JObj kvs \<Rightarrow> Inl (OtherException (py_text w (NoSuchKey x)))
      | _ \<Rightarrow> Inl (OtherException (py_text w (NotSubscriptable x))))"

text \<open>\<^verbatim>\<open>x[:3]\<close>: the first three elements at most, in order.\<close>

definition py_slice3 :: "world \<Rightarrow> json \<Rightarrow> exn + json" where
  "py_slice3 w x =
     (case x of
        JArr ys \<Rightarrow> Inr (JArr (take 3 ys))
      | JStr s \<Rightarrow> Inr (JStr (take 3 s))
      | JObj kvs \<Rightarrow> Inl (OtherException (py_text w (NoSlice x)))
      | _ \<Rightarrow> Inl (OtherException (py_text w (NotSubscriptable x))))"

text \<open>\<^verbatim>\<open>int(x)\<close>: a float is cut towards zero.\<close>

definition py_int :: "world \<Rightarrow> json \<Rightarrow> exn + int" where
  "py_int w x =
     (case x of
        JInt n \<Rightarrow> Inr n
      | JBool b \<Rightarrow> Inr (if b then 1 else 0)
      | JFloat r \<Rightarrow> Inr (if 0 \<le> r then \<lfloor>r\<rfloor> else \<lceil>r\<rceil>)
      | JStr s \<Rightarrow>
          (case py_int_of_str w s of
             Some n \<Rightarrow> Inr n
           | None \<Rightarrow> Inl (OtherException (py_text w (NotAnInt x))))
      | _ \<Rightarrow> Inl (OtherException (py_text w (NotAnInt x))))"

record sample =
  wx_prob :: int
  wx_times :: json

text \<open>
  Running one step after another until one raises: \<open>x \<bind> f\<close> of the exception
  monad, written \<open>and_then x f\<close>.
\<close>

definition and_then :: "exn + 'a \<Rightarrow> ('a \<Rightarrow> exn + 'b) \<Rightarrow> exn + 'b" where
  "and_then x f = (case x of Inl e \<Rightarrow> Inl e | Inr v \<Rightarrow> f v)"

text \<open>Lines 58 to 63: what is read from the forecast document.\<close>

definition read_forecast :: "world \<Rightarrow> json \<Rightarrow> exn + sample" where
  "read_forecast w data =
     and_then (py_get w data ''hourly'' (JObj [])) (\<lambda>hourly.
     and_then (py_get w hourly ''precipitation_probability'' (JArr [])) (\<lambda>probs.
     and_then (py_get w hourly ''time'' (JArr [])) (\<lambda>times.
       if \<not> truthy probs
       then Inl (RuntimeError ''Weather data missing precipitation probabilities.'')
       else
         and_then (py_index0 w probs) (\<lambda>first.
         and_then (py_int w first) (\<lambda>p.
         and_then (if truthy times then py_slice3 w times else Inr (JArr [])) (\<lambda>ts.
           Inr \<lparr>wx_prob = p, wx_times = ts\<rparr>))))))"

definition fetch_precip_prob :: "world \<Rightarrow> real \<Rightarrow> real \<Rightarrow> trace \<Rightarrow> (exn + sample) \<times> trace" where
  "fetch_precip_prob w lat lng tr =
     (and_then (requests_get w (length tr) (ForecastUrl lat lng)) (\<lambda>r.
      and_then (raise_for_status r) (\<lambda>u.
      and_then (json_body r) (read_forecast w))),
      tr @ [HttpGet (ForecastUrl lat lng)])"

subsection \<open>\<^verbatim>\<open>check_for_rain\<close>\<close>

text \<open>The returned \<^verbatim>\<open>dict\<close>: its items in insertion order.\<close>

type_synonym result = "(string \<times> json) list"

text \<open>The local function \<^verbatim>\<open>geolocate\<close> (lines 84 to 90).\<close>

definition geolocate :: "world \<Rightarrow> string \<Rightarrow> trace \<Rightarrow> (exn + real \<times> real \<times> string) \<times> trace" where
  "geolocate w target_ip tr =
     (and_then (geocoder_ip w (length tr) target_ip) (\<lambda>g.
        case (ok g, latlng g) of
          (True, Some (lat, lng)) \<Rightarrow>
            Inr (lat, lng,
              (case city g of
                 None \<Rightarrow> ''your area''
               | Some c \<Rightarrow> if c = [] then ''your area'' else c))
        | _ \<Rightarrow> Inl (RuntimeError (''Could not geolocate IP '' @ target_ip @ ''.''))),
      tr @ [GeocoderIp target_ip])"

text \<open>Step 3, the weather lookup (lines 110 to 131), with its two handlers.\<close>

definition weather_lookup ::
  "world \<Rightarrow> string \<Rightarrow> real \<Rightarrow> real \<Rightarrow> string \<Rightarrow> int \<Rightarrow> trace \<Rightarrow> result \<times> trace" where
  "weather_lookup w ip lat lng city_name threshold tr =
     (case fetch_precip_prob w lat lng tr of
        (Inr wx, tr') \<Rightarrow>
          (let p = wx_prob wx;
               result =
                 [(''ip'', JStr ip),
                  (''location'', JStr city_name),
                  (''lat'', JFloat lat),
                  (''lng'', JFloat lng),
                  (''rain'', JBool (p > threshold)),
                  (''precipitation_chance'', JInt p),
                  (''threshold'', JInt threshold),
                  (''message'', JStr ((if p > threshold then ''Yes'' else ''No'') @ '', '' @
                     str_int p @ ''% chance of rain soon in '' @ city_name @ ''.''))]
           in (if truthy (wx_times wx) then result @ [(''hour_sample'', wx_times wx)]
               else result, tr'))
      | (Inl e, tr') \<Rightarrow>
          (if is_request_exception e
           then [(''error'', JStr (''Failed to fetch weather data: '' @ str_exn e))]
           else [(''error'', JStr (str_exn e))], tr'))"

text \<open>
  The tool itself. The argument \<open>ip_arg\<close> is \<open>None\<close> for Python's \<^verbatim>\<open>None\<close>. The
  trace starts empty. Steps 1 and 2 end in an error record or hand the address and
  the location to step 3.
\<close>

definition check_for_rain :: "world \<Rightarrow> string option \<Rightarrow> int \<Rightarrow> result \<times> trace" where
  "check_for_rain w ip_arg threshold =
     (let ip = strip (case ip_arg of None \<Rightarrow> [] | Some s \<Rightarrow> s) in
      case (if ip = [] then (True, get_public_ip w []) else (False, Inr ip, [])) of
        (tried_autodetect, Inl e, tr) \<Rightarrow>
          ([(''error'', JStr (''Could not determine public IP: '' @ str_exn e))], tr)
      | (tried_autodetect, Inr ip, tr) \<Rightarrow>
          (case geolocate w ip tr of
             (Inr (lat, lng, city_name), tr1) \<Rightarrow>
               weather_lookup w ip lat lng city_name threshold tr1
           | (Inl first_err, tr1) \<Rightarrow>
               if \<not> tried_autodetect then
                 (case get_public_ip w tr1 of
                    (Inl second_err, tr2) \<Rightarrow>
                      ([(''error'', JStr (str_exn first_err @
                          ''; fallback to public IP failed: '' @ str_exn second_err))], tr2)
                  | (Inr auto_ip, tr2) \<Rightarrow>
                      (case geolocate w auto_ip tr2 of
                         (Inl second_err, tr3) \<Rightarrow>
                           ([(''error'', JStr (str_exn first_err @
                               ''; fallback to public IP failed: '' @ str_exn second_err))], tr3)
                       | (Inr (lat, lng, city_name), tr3) \<Rightarrow>
                           weather_lookup w auto_ip lat lng city_name threshold tr3))
               else ([(''error'', JStr (str_exn first_err))], tr1)))"

section \<open>Vocabulary of the statements\<close>

text \<open>
  The address that \<^verbatim>\<open>check_for_rain\<close> works with after line 74: the argument,
  \<^verbatim>\<open>None\<close> read as the empty string, stripped.
\<close>

definition arg_ip :: "string option \<Rightarrow> string" where
  "arg_ip ip_arg = strip (case ip_arg of None \<Rightarrow> [] | Some s \<Rightarrow> s)"

text \<open>
  An answer of an endpoint after which \<^verbatim>\<open>_get_public_ip\<close> goes on to the next
  endpoint: a \<^verbatim>\<open>RequestException\<close>, or a text that is empty once stripped.
\<close>

definition swallowed :: "exn + http_response \<Rightarrow> bool" where
  "swallowed a = (case a of Inl e \<Rightarrow> is_request_exception e | Inr r \<Rightarrow> strip (body_text r) = [])"

text \<open>
  The answer that endpoint \<open>i\<close> (counted from 0) gives when it is asked after the
  endpoints before it, in a discovery that starts after the trace \<open>tr\<close>.
\<close>

definition endpoint_answer :: "world \<Rightarrow> trace \<Rightarrow> nat \<Rightarrow> exn + http_response" where
  "endpoint_answer w tr i = requests_get w (length tr + i) (Url (endpoints ! i))"

text \<open>The trace of asking the given endpoints, one request each, in order.\<close>

definition discovery_calls :: "string list \<Rightarrow> trace" where
  "discovery_calls us = map (\<lambda>u. HttpGet (Url u)) us"

text \<open>Whether a call is a request to the forecast service.\<close>

fun is_forecast :: "call \<Rightarrow> bool" where
  "is_forecast (HttpGet (ForecastUrl lat lng)) = True"
| "is_forecast (HttpGet (Url u)) = False"
| "is_forecast (GeocoderIp ip) = False"

text \<open>The eight items of a success record (lines 113 to 124).\<close>

definition success_items :: "string \<Rightarrow> string \<Rightarrow> real \<Rightarrow> real \<Rightarrow> int \<Rightarrow> int \<Rightarrow> result" where
  "success_items ip c lat lng threshold p =
     [(''ip'', JStr ip),
      (''location'', JStr c),
      (''lat'', JFloat lat),
      (''lng'', JFloat lng),
      (''rain'', JBool (p > threshold)),
      (''precipitation_chance'', JInt p),
      (''threshold'', JInt threshold),
      (''message'', JStr ((if p > threshold then ''Yes'' else ''No'') @ '', '' @
         str_int p @ ''% chance of rain soon in '' @ c @ ''.''))]"

text \<open>The error record of a failed fallback (lines 103 to 105).\<close>

definition fallback_error :: "exn \<Rightarrow> exn \<Rightarrow> result" where
  "fallback_error first_err second_err =
     [(''error'', JStr (str_exn first_err @ ''; fallback to public IP failed: '' @
        str_exn second_err))]"

text \<open>
  The sequence stored under a key of the \<^verbatim>\<open>hourly\<close> block of a forecast document.
  A missing block or a missing key counts as the empty sequence, as the defaults of
  the two \<^verbatim>\<open>.get\<close> calls make it; a document of any other shape has none.
\<close>

definition hourly_sequence :: "json \<Rightarrow> string \<Rightarrow> json list option" where
  "hourly_sequence data k =
     (case data of
        JObj kvs \<Rightarrow>
          (case map_of kvs ''hourly'' of
             None \<Rightarrow> Some []
           | Some (JObj h) \<Rightarrow>
               (case map_of h k of
                  None \<Rightarrow> Some []
                | Some (JArr xs) \<Rightarrow> Some xs
                | Some _ \<Rightarrow> None)
           | Some _ \<Rightarrow> None)
      | _ \<Rightarrow> None)"

section \<open>Sample worlds\<close>

text \<open>
  Worlds whose answers do not depend on the number of earlier calls: the discovery
  endpoints answer by address, the geolocation provider by IP address, and the forecast
  service always the same.
\<close>

definition sample_world ::
  "(string \<Rightarrow> exn + http_response) \<Rightarrow> (string \<Rightarrow> exn + geo_result) \<Rightarrow>
   (exn + http_response) \<Rightarrow> world" where
  "sample_world ip_answer geo forecast =
     \<lparr>requests_get = (\<lambda>n u. case u of Url a \<Rightarrow> ip_answer a | ForecastUrl lat lng \<Rightarrow> forecast),
      geocoder_ip = (\<lambda>n ip. geo ip),
      py_text = (\<lambda>f. ''unexpected value''),
      py_int_of_str = (\<lambda>s. None)\<rparr>"

definition text_response :: "string \<Rightarrow> exn + http_response" where
  "text_response s =
     Inr \<lparr>status_code = 200, status_error = [], body_text = s,
          json_body = Inl (OtherException ''not JSON'')\<rparr>"

definition json_response :: "json \<Rightarrow> exn + http_response" where
  "json_response d =
     Inr \<lparr>status_code = 200, status_error = [], body_text = [], json_body = Inr d\<rparr>"

definition forecast_doc :: "json list \<Rightarrow> json list \<Rightarrow> json" where
  "forecast_doc ts ps =
     JObj [(''hourly'', JObj [(''time'', JArr ts), (''precipitation_probability'', JArr ps)])]"

definition located :: "real \<Rightarrow> real \<Rightarrow> string option \<Rightarrow> exn + geo_result" where
  "located lat lng c = Inr \<lparr>ok = True, latlng = Some (lat, lng), city = c\<rparr>"

definition not_located :: "exn + geo_result" where
  "not_located = Inr \<lparr>ok = False, latlng = None, city = None\<rparr>"

text \<open>
  Discovery answers 1.2.3.4, every address is in Testville at (10, 20), and the
  chance of rain is 45.
\<close>

definition world_testville :: world where
  "world_testville =
     sample_world (\<lambda>a. text_response ''1.2.3.4'')
       (\<lambda>ip. located 10 20 (Some ''Testville''))
       (json_response (forecast_doc [] [JInt 45]))"

text \<open>
  The address 5.6.7.8 cannot be located, every other address is at (30, 40) in a
  place without a city name; discovery answers 9.9.9.9 followed by a line feed; the
  chance of rain is 10 and the forecast has four hours.
\<close>

definition world_switch :: world where
  "world_switch =
     sample_world (\<lambda>a. text_response (''9.9.9.9'' @ [CHR 0x0A]))
       (\<lambda>ip. if ip = ''5.6.7.8'' then not_located else located 30 40 None)
       (json_response (forecast_doc
          [JStr ''T00:00'', JStr ''T01:00'', JStr ''T02:00'', JStr ''T03:00'']
          [JInt 10, JInt 80]))"

text \<open>No request gets through and no address can be located.\<close>

definition world_offline :: world where
  "world_offline =
     sample_world (\<lambda>a. Inl (RequestException ''connection refused''))
       (\<lambda>ip. not_located)
       (Inl (RequestException ''connection refused''))"

text \<open>Discovery answers 9.9.9.9 but no address can be located.\<close>

definition world_nowhere :: world where
  "world_nowhere =
     sample_world (\<lambda>a. text_response ''9.9.9.9'')
       (\<lambda>ip. not_located)
       (json_response (forecast_doc [] [JInt 45]))"

text \<open>The forecast service answers with the server error status 503.\<close>

definition world_http_error :: world where
  "world_http_error =
     sample_world (\<lambda>a. text_response ''1.2.3.4'')
       (\<lambda>ip. located 10 20 (Some ''Testville''))
       (Inr \<lparr>status_code = 503, status_error = ''503 Server Error'', body_text = [],
             json_body = Inl (OtherException ''not JSON'')\<rparr>)"

text \<open>
  The forecast service answers with the status 300 (Multiple Choices), which is not a
  2xx status, and with a forecast document whose chance of rain is 45.
\<close>

definition world_multiple_choices :: world where
  "world_multiple_choices =
     sample_world (\<lambda>a. text_response ''1.2.3.4'')
       (\<lambda>ip. located 10 20 (Some ''Testville''))
       (Inr \<lparr>status_code = 300, status_error = [], body_text = [],
             json_body = Inr (forecast_doc [] [JInt 45])\<rparr>)"

text \<open>The forecast document has \<^verbatim>\<open>null\<close> in the place of the probabilities.\<close>

definition world_null_probs :: world where
  "world_null_probs =
     sample_world (\<lambda>a. text_response ''1.2.3.4'')
       (\<lambda>ip. located 10 20 (Some ''Testville''))
       (json_response
          (JObj [(''hourly'', JObj [(''precipitation_probability'', JNull)])]))"

text \<open>The forecast document has an empty sequence of probabilities.\<close>

definition world_no_probs :: world where
  "world_no_probs =
     sample_world (\<lambda>a. text_response ''1.2.3.4'')
       (\<lambda>ip. located 10 20 (Some ''Testville''))
       (json_response (forecast_doc [JStr ''T00:00''] []))"

text \<open>
  The first endpoint cannot be reached, the second answers with blanks only, the
  third answers 7.7.7.7 between blanks.
\<close>

definition world_third_endpoint :: world where
  "world_third_endpoint =
     sample_world
       (\<lambda>a. if a = ''https://api.ipify.org'' then Inl (RequestException ''timed out'')
            else if a = ''https://ipinfo.io/ip'' then text_response ''  ''
            else text_response ('' 7.7.7.7'' @ [CHR 0x0A]))
       (\<lambda>ip. not_located)
       (Inl (RequestException ''connection refused''))"

section \<open>The steps of the pipeline\<close>

text \<open>A string strips to the empty string exactly when it holds blanks only.\<close>

lemma strip_Nil_iff: "strip s = [] \<longleftrightarrow> (\<forall>c \<in> set s. isspace c)"
proof
  assume "strip s = []"
  then have all: "\<forall>c \<in> set (dropWhile isspace s). isspace c"
    by (simp add: strip_def)
  have "dropWhile isspace s = []"
  proof (rule ccontr)
    assume ne: "dropWhile isspace s \<noteq> []"
    then have "\<not> isspace (hd (dropWhile isspace s))" by (rule hd_dropWhile)
    moreover from ne have "hd (dropWhile isspace s) \<in> set (dropWhile isspace s)"
      by (rule hd_in_set)
    ultimately show False using all by blast
  qed
  then show "\<forall>c \<in> set s. isspace c" by simp
next
  assume "\<forall>c \<in> set s. isspace c"
  then have d: "dropWhile isspace s = []" by simp
  show "strip s = []" unfolding strip_def d by simp
qed

text \<open>
  The loop of \<^verbatim>\<open>_get_public_ip\<close>. An endpoint whose answer is swallowed costs one
  request and leaves the rest of the list to be tried; so do the first \<open>i\<close> endpoints
  when all their answers are swallowed.
\<close>

lemma try_endpoints_swallowed:
  "swallowed (requests_get w (length tr) (Url u)) \<Longrightarrow>
   try_endpoints w (u # us) tr = try_endpoints w us (tr @ [HttpGet (Url u)])"
  by (auto simp: swallowed_def split: sum.splits)

lemma try_endpoints_skip:
  "i \<le> length us \<Longrightarrow>
   \<forall>j<i. swallowed (requests_get w (length tr + j) (Url (us ! j))) \<Longrightarrow>
   try_endpoints w us tr = try_endpoints w (drop i us) (tr @ discovery_calls (take i us))"
proof (induction i arbitrary: us tr)
  case 0
  then show ?case by (simp add: discovery_calls_def)
next
  case (Suc i)
  then obtain u us' where us: "us = u # us'" by (cases us) auto
  from Suc.prems(2) have "swallowed (requests_get w (length tr + 0) (Url (us ! 0)))"
    by blast
  with us have first: "swallowed (requests_get w (length tr) (Url u))" by simp
  have rest: "\<forall>j<i. swallowed (requests_get w (length (tr @ [HttpGet (Url u)]) + j) (Url (us' ! j)))"
  proof (intro allI impI)
    fix j assume "j < i"
    then have "Suc j < Suc i" by simp
    with Suc.prems(2) have "swallowed (requests_get w (length tr + Suc j) (Url (us ! Suc j)))"
      by blast
    with us show "swallowed (requests_get w (length (tr @ [HttpGet (Url u)]) + j) (Url (us' ! j)))"
      by simp
  qed
  from Suc.prems(1) us have "i \<le> length us'" by simp
  from Suc.IH [OF this rest] try_endpoints_swallowed [OF first, of us'] us
  show ?case by (simp add: discovery_calls_def)
qed

text \<open>
  The three ways out of the loop: an endpoint answers with a text that is not blank, an
  endpoint raises an exception that is not a \<^verbatim>\<open>RequestException\<close> (it leaves the
  function as it is), or the list is exhausted.
\<close>

lemma try_endpoints_found:
  assumes "i < length us"
    and "\<forall>j<i. swallowed (requests_get w (length tr + j) (Url (us ! j)))"
    and "requests_get w (length tr + i) (Url (us ! i)) = Inr r"
    and "strip (body_text r) \<noteq> []"
  shows "try_endpoints w us tr =
     (Inr (strip (body_text r)), tr @ discovery_calls (take (Suc i) us))"
proof -
  from assms(1) have d: "drop i us = us ! i # drop (Suc i) us"
    by (simp add: Cons_nth_drop_Suc)
  from assms(1) have "try_endpoints w us tr =
      try_endpoints w (drop i us) (tr @ discovery_calls (take i us))"
    by (intro try_endpoints_skip assms(2)) simp
  also have "\<dots> = (Inr (strip (body_text r)),
      (tr @ discovery_calls (take i us)) @ [HttpGet (Url (us ! i))])"
    using assms(1,3,4) unfolding d by (simp add: discovery_calls_def)
  also have "(tr @ discovery_calls (take i us)) @ [HttpGet (Url (us ! i))] =
      tr @ discovery_calls (take (Suc i) us)"
    using assms(1) by (simp add: discovery_calls_def take_Suc_conv_app_nth)
  finally show ?thesis .
qed

lemma try_endpoints_escape:
  assumes "i < length us"
    and "\<forall>j<i. swallowed (requests_get w (length tr + j) (Url (us ! j)))"
    and "requests_get w (length tr + i) (Url (us ! i)) = Inl e"
    and "\<not> is_request_exception e"
  shows "try_endpoints w us tr = (Inl e, tr @ discovery_calls (take (Suc i) us))"
proof -
  from assms(1) have d: "drop i us = us ! i # drop (Suc i) us"
    by (simp add: Cons_nth_drop_Suc)
  from assms(1) have "try_endpoints w us tr =
      try_endpoints w (drop i us) (tr @ discovery_calls (take i us))"
    by (intro try_endpoints_skip assms(2)) simp
  also have "\<dots> = (Inl e, (tr @ discovery_calls (take i us)) @ [HttpGet (Url (us ! i))])"
    using assms(1,3,4) unfolding d by (simp add: discovery_calls_def)
  also have "(tr @ discovery_calls (take i us)) @ [HttpGet (Url (us ! i))] =
      tr @ discovery_calls (take (Suc i) us)"
    using assms(1) by (simp add: discovery_calls_def take_Suc_conv_app_nth)
  finally show ?thesis .
qed

lemma try_endpoints_exhausted:
  assumes "\<forall>j<length us. swallowed (requests_get w (length tr + j) (Url (us ! j)))"
  shows "try_endpoints w us tr =
     (Inl (RuntimeError ''Could not determine public IP from fallback services.''),
      tr @ discovery_calls us)"
  using try_endpoints_skip [of "length us" us w tr] assms by simp

text \<open>Whatever the outcome, the discovery asks a prefix of the endpoints, once each.\<close>

lemma try_endpoints_trace:
  "\<exists>k. k \<le> length us \<and> (us \<noteq> [] \<longrightarrow> 1 \<le> k) \<and>
       snd (try_endpoints w us tr) = tr @ discovery_calls (take k us)"
proof (induction us arbitrary: tr)
  case Nil
  then show ?case by (simp add: discovery_calls_def)
next
  case (Cons u us)
  from Cons.IH [of "tr @ [HttpGet (Url u)]"] obtain k where
    k: "k \<le> length us" "snd (try_endpoints w us (tr @ [HttpGet (Url u)])) =
        (tr @ [HttpGet (Url u)]) @ discovery_calls (take k us)"
    by blast
  have stop: "tr @ [HttpGet (Url u)] = tr @ discovery_calls (take (Suc 0) (u # us))"
    by (simp add: discovery_calls_def)
  have go: "snd (try_endpoints w us (tr @ [HttpGet (Url u)])) =
      tr @ discovery_calls (take (Suc k) (u # us))"
    using k(2) by (simp add: discovery_calls_def)
  have "snd (try_endpoints w (u # us) tr) = tr @ [HttpGet (Url u)] \<or>
        snd (try_endpoints w (u # us) tr) = snd (try_endpoints w us (tr @ [HttpGet (Url u)]))"
    by (simp add: Let_def split: sum.splits)
  then show ?case
  proof
    assume "snd (try_endpoints w (u # us) tr) = tr @ [HttpGet (Url u)]"
    with stop have "snd (try_endpoints w (u # us) tr) = tr @ discovery_calls (take (Suc 0) (u # us))"
      by simp
    then show ?thesis by (intro exI [of _ "Suc 0"]) simp
  next
    assume "snd (try_endpoints w (u # us) tr) = snd (try_endpoints w us (tr @ [HttpGet (Url u)]))"
    with go have "snd (try_endpoints w (u # us) tr) = tr @ discovery_calls (take (Suc k) (u # us))"
      by simp
    with k(1) show ?thesis by (intro exI [of _ "Suc k"]) simp
  qed
qed

lemma list_ex_discovery_calls [simp]: "\<not> list_ex is_forecast (discovery_calls us)"
  by (induction us) (simp_all add: discovery_calls_def)

lemma get_public_ip_trace:
  "\<exists>k. 1 \<le> k \<and> k \<le> 3 \<and> snd (get_public_ip w tr) = tr @ discovery_calls (take k endpoints)"
proof -
  have "endpoints \<noteq> []" "length endpoints = 3" by (simp_all add: endpoints_def)
  with try_endpoints_trace [of endpoints w tr] show ?thesis
    unfolding get_public_ip_def by auto
qed

lemma get_public_ip_no_forecast:
  assumes "get_public_ip w tr = (r, tr')"
  shows "list_ex is_forecast tr' = list_ex is_forecast tr"
proof -
  from get_public_ip_trace [of w tr] assms obtain k where
    "tr' = tr @ discovery_calls (take k endpoints)" by auto
  then show ?thesis by simp
qed

text \<open>A geolocation is one call to the provider, a forecast lookup one request.\<close>

lemma geolocate_trace: "geolocate w ip tr = (r, tr') \<Longrightarrow> tr' = tr @ [GeocoderIp ip]"
  by (auto simp: geolocate_def)

lemma fetch_precip_prob_trace:
  "fetch_precip_prob w lat lng tr = (r, tr') \<Longrightarrow> tr' = tr @ [HttpGet (ForecastUrl lat lng)]"
  by (auto simp: fetch_precip_prob_def)

text \<open>Step 3 after a forecast lookup that returned, and after one that raised.\<close>

lemma weather_lookup_success:
  "fetch_precip_prob w lat lng tr = (Inr wx, tr') \<Longrightarrow>
   weather_lookup w ip lat lng c t tr =
     (success_items ip c lat lng t (wx_prob wx) @
        (if truthy (wx_times wx) then [(''hour_sample'', wx_times wx)] else []), tr')"
  by (simp add: weather_lookup_def success_items_def Let_def)

lemma weather_lookup_failure:
  "fetch_precip_prob w lat lng tr = (Inl e, tr') \<Longrightarrow>
   weather_lookup w ip lat lng c t tr =
     ([(''error'', JStr (if is_request_exception e
          then ''Failed to fetch weather data: '' @ str_exn e else str_exn e))], tr')"
  by (simp add: weather_lookup_def)

text \<open>
  The seven paths through steps 1 and 2 of \<^verbatim>\<open>check_for_rain\<close>: four end in an
  error record, three hand over to the weather lookup.
\<close>

lemma path_discovery_failed:
  "arg_ip ip = [] \<Longrightarrow> get_public_ip w [] = (Inl e, tr) \<Longrightarrow>
   check_for_rain w ip t =
     ([(''error'', JStr (''Could not determine public IP: '' @ str_exn e))], tr)"
  by (simp add: check_for_rain_def arg_ip_def)

lemma path_auto_geolocation_failed:
  "arg_ip ip = [] \<Longrightarrow> get_public_ip w [] = (Inr auto_ip, tr) \<Longrightarrow>
   geolocate w auto_ip tr = (Inl first_err, tr1) \<Longrightarrow>
   check_for_rain w ip t = ([(''error'', JStr (str_exn first_err))], tr1)"
  by (simp add: check_for_rain_def arg_ip_def)

lemma path_auto_located:
  "arg_ip ip = [] \<Longrightarrow> get_public_ip w [] = (Inr auto_ip, tr) \<Longrightarrow>
   geolocate w auto_ip tr = (Inr (lat, lng, c), tr1) \<Longrightarrow>
   check_for_rain w ip t = weather_lookup w auto_ip lat lng c t tr1"
  by (simp add: check_for_rain_def arg_ip_def)

lemma path_given_located:
  "arg_ip ip \<noteq> [] \<Longrightarrow> geolocate w (arg_ip ip) [] = (Inr (lat, lng, c), tr1) \<Longrightarrow>
   check_for_rain w ip t = weather_lookup w (arg_ip ip) lat lng c t tr1"
  by (simp add: check_for_rain_def arg_ip_def)

lemma path_fallback_discovery_failed:
  "arg_ip ip \<noteq> [] \<Longrightarrow> geolocate w (arg_ip ip) [] = (Inl first_err, tr1) \<Longrightarrow>
   get_public_ip w tr1 = (Inl second_err, tr2) \<Longrightarrow>
   check_for_rain w ip t = (fallback_error first_err second_err, tr2)"
  by (simp add: check_for_rain_def arg_ip_def fallback_error_def)

lemma path_fallback_geolocation_failed:
  "arg_ip ip \<noteq> [] \<Longrightarrow> geolocate w (arg_ip ip) [] = (Inl first_err, tr1) \<Longrightarrow>
   get_public_ip w tr1 = (Inr auto_ip, tr2) \<Longrightarrow>
   geolocate w auto_ip tr2 = (Inl second_err, tr3) \<Longrightarrow>
   check_for_rain w ip t = (fallback_error first_err second_err, tr3)"
  by (simp add: check_for_rain_def arg_ip_def fallback_error_def)

lemma path_fallback_located:
  "arg_ip ip \<noteq> [] \<Longrightarrow> geolocate w (arg_ip ip) [] = (Inl first_err, tr1) \<Longrightarrow>
   get_public_ip w tr1 = (Inr auto_ip, tr2) \<Longrightarrow>
   geolocate w auto_ip tr2 = (Inr (lat, lng, c), tr3) \<Longrightarrow>
   check_for_rain w ip t = weather_lookup w auto_ip lat lng c t tr3"
  by (simp add: check_for_rain_def arg_ip_def)

text \<open>
  Every run either ends in steps 1 and 2 with an error record and without a forecast
  request, or is a weather lookup started after a trace without forecast requests.
\<close>

lemma check_for_rain_cases:
  "(\<exists>m. fst (check_for_rain w ip t) = [(''error'', JStr m)] \<and>
        \<not> list_ex is_forecast (snd (check_for_rain w ip t))) \<or>
   (\<exists>ip' lat lng c tr0. \<not> list_ex is_forecast tr0 \<and>
        check_for_rain w ip t = weather_lookup w ip' lat lng c t tr0)"
proof (cases "arg_ip ip = []")
  case True
  obtain r tr where d: "get_public_ip w [] = (r, tr)" by (cases "get_public_ip w []") 
  from get_public_ip_no_forecast [OF d] have nf: "\<not> list_ex is_forecast tr" by simp
  show ?thesis
  proof (cases r)
    case (Inl e)
    with path_discovery_failed [OF True, of w e tr t] d nf show ?thesis by simp
  next
    case (Inr auto_ip)
    obtain g tr1 where g: "geolocate w auto_ip tr = (g, tr1)" by (cases "geolocate w auto_ip tr") 
    from geolocate_trace [OF g] nf have nf1: "\<not> list_ex is_forecast tr1" by simp
    show ?thesis
    proof (cases g)
      case (Inl first_err)
      with path_auto_geolocation_failed [OF True, of w auto_ip tr first_err tr1 t] d Inr g nf1
      show ?thesis by simp
    next
      case loc: (Inr loc)
      obtain lat lng c where "loc = (lat, lng, c)" by (cases loc)
      with path_auto_located [OF True, of w auto_ip tr lat lng c tr1 t] d Inr g loc nf1
      show ?thesis by blast
    qed
  qed
next
  case False
  obtain g tr1 where g: "geolocate w (arg_ip ip) [] = (g, tr1)"
    by (cases "geolocate w (arg_ip ip) []") 
  from geolocate_trace [OF g] have nf1: "\<not> list_ex is_forecast tr1" by simp
  show ?thesis
  proof (cases g)
    case loc: (Inr loc)
    obtain lat lng c where "loc = (lat, lng, c)" by (cases loc)
    with path_given_located [OF False, of w lat lng c tr1 t] g loc nf1
    show ?thesis by blast
  next
    case (Inl first_err)
    obtain r tr2 where d: "get_public_ip w tr1 = (r, tr2)" by (cases "get_public_ip w tr1") 
    from get_public_ip_no_forecast [OF d] nf1 have nf2: "\<not> list_ex is_forecast tr2" by simp
    show ?thesis
    proof (cases r)
      case second: (Inl second_err)
      with path_fallback_discovery_failed [OF False, of w first_err tr1 second_err tr2 t] g Inl d nf2
      show ?thesis by (simp add: fallback_error_def)
    next
      case (Inr auto_ip)
      obtain g2 tr3 where g2: "geolocate w auto_ip tr2 = (g2, tr3)"
        by (cases "geolocate w auto_ip tr2") 
      from geolocate_trace [OF g2] nf2 have nf3: "\<not> list_ex is_forecast tr3" by simp
      show ?thesis
      proof (cases g2)
        case second: (Inl second_err)
        with path_fallback_geolocation_failed [OF False, of w first_err tr1 auto_ip tr2 second_err tr3 t]
          g Inl d Inr g2 nf3
        show ?thesis by (simp add: fallback_error_def)
      next
        case loc: (Inr loc)
        obtain lat lng c where "loc = (lat, lng, c)" by (cases loc)
        with path_fallback_located [OF False, of w first_err tr1 auto_ip tr2 lat lng c tr3 t]
          g Inl d Inr g2 loc nf3
        show ?thesis by blast
      qed
    qed
  qed
qed

lemma weather_lookup_trace:
  "snd (weather_lookup w ip lat lng c t tr) = tr @ [HttpGet (ForecastUrl lat lng)]"
  by (cases "fetch_precip_prob w lat lng tr")
     (auto simp: weather_lookup_def Let_def split: sum.splits dest: fetch_precip_prob_trace)

lemma weather_lookup_ip:
  "map_of (fst (weather_lookup w ip lat lng c t tr)) ''error'' = None \<Longrightarrow>
   map_of (fst (weather_lookup w ip lat lng c t tr)) ''ip'' = Some (JStr ip)"
  by (cases "fetch_precip_prob w lat lng tr")
     (auto simp: weather_lookup_def Let_def split: sum.splits if_splits)

text \<open>The two outcomes of the weather lookup, with the trace.\<close>

lemma weather_lookup_cases:
  "(\<exists>e. fetch_precip_prob w lat lng tr0 = (Inl e, tr0 @ [HttpGet (ForecastUrl lat lng)]) \<and>
        weather_lookup w ip lat lng c t tr0 =
          ([(''error'', JStr (if is_request_exception e
               then ''Failed to fetch weather data: '' @ str_exn e else str_exn e))],
           tr0 @ [HttpGet (ForecastUrl lat lng)])) \<or>
   (\<exists>wx. fetch_precip_prob w lat lng tr0 = (Inr wx, tr0 @ [HttpGet (ForecastUrl lat lng)]) \<and>
        weather_lookup w ip lat lng c t tr0 =
          (success_items ip c lat lng t (wx_prob wx) @
             (if truthy (wx_times wx) then [(''hour_sample'', wx_times wx)] else []),
           tr0 @ [HttpGet (ForecastUrl lat lng)]))"
proof -
  obtain x tr where f: "fetch_precip_prob w lat lng tr0 = (x, tr)"
    by (cases "fetch_precip_prob w lat lng tr0")
  from fetch_precip_prob_trace [OF f] have tr: "tr = tr0 @ [HttpGet (ForecastUrl lat lng)]" .
  show ?thesis
  proof (cases x)
    case (Inl e)
    with f tr weather_lookup_failure [of w lat lng tr0 e tr ip c t] show ?thesis by simp
  next
    case (Inr wx)
    with f tr weather_lookup_success [of w lat lng tr0 wx tr ip c t] show ?thesis by simp
  qed
qed

text \<open>
  A result without an \<^verbatim>\<open>error\<close> item is the success record of a forecast lookup
  that returned; a run whose last call is a forecast request is a weather lookup.
\<close>

lemma check_for_rain_success:
  assumes "check_for_rain w ip t = (res, tr)" and "map_of res ''error'' = None"
  shows "\<exists>ip' c lat lng tr0 wx. fetch_precip_prob w lat lng tr0 = (Inr wx, tr) \<and>
           res = success_items ip' c lat lng t (wx_prob wx) @
             (if truthy (wx_times wx) then [(''hour_sample'', wx_times wx)] else [])"
proof -
  from check_for_rain_cases [of w ip t] assms
  obtain ip' lat lng c tr0 where run: "weather_lookup w ip' lat lng c t tr0 = (res, tr)"
    by auto
  from weather_lookup_cases [of w lat lng tr0 ip' c t] run assms(2)
  obtain wx where "fetch_precip_prob w lat lng tr0 = (Inr wx, tr)"
    and "res = success_items ip' c lat lng t (wx_prob wx) @
             (if truthy (wx_times wx) then [(''hour_sample'', wx_times wx)] else [])"
    by auto
  then show ?thesis by blast
qed

lemma check_for_rain_forecast:
  assumes "check_for_rain w ip t = (res, tr0 @ [HttpGet (ForecastUrl lat lng)])"
  shows "\<exists>ip' c. weather_lookup w ip' lat lng c t tr0 =
           (res, tr0 @ [HttpGet (ForecastUrl lat lng)])"
proof -
  from check_for_rain_cases [of w ip t] assms
  obtain ip' lat' lng' c tr0' where
    run: "weather_lookup w ip' lat' lng' c t tr0' = (res, tr0 @ [HttpGet (ForecastUrl lat lng)])"
    by auto
  with weather_lookup_trace [of w ip' lat' lng' c t tr0']
  have "tr0' @ [HttpGet (ForecastUrl lat' lng')] = tr0 @ [HttpGet (ForecastUrl lat lng)]"
    by simp
  then have "tr0' = tr0" "lat' = lat" "lng' = lng" by simp_all
  with run show ?thesis by blast
qed

lemma map_of_success_items:
  "map_of (success_items ip c lat lng t p @ extra) ''rain'' = Some (JBool (p > t))"
  "map_of (success_items ip c lat lng t p @ extra) ''precipitation_chance'' = Some (JInt p)"
  "map_of (success_items ip c lat lng t p @ extra) ''threshold'' = Some (JInt t)"
  "map_of (success_items ip c lat lng t p @ extra) ''hour_sample'' = map_of extra ''hour_sample''"
  by (simp_all add: success_items_def)

text \<open>The forecast lookup, by the answer to its request.\<close>

lemma fetch_precip_prob_Inr:
  assumes "fetch_precip_prob w lat lng tr0 = (Inr wx, tr)"
  shows "\<exists>r data. requests_get w (length tr0) (ForecastUrl lat lng) = Inr r \<and>
           \<not> (400 \<le> status_code r \<and> status_code r < 600) \<and>
           json_body r = Inr data \<and> read_forecast w data = Inr wx"
  using assms
  by (auto simp: fetch_precip_prob_def raise_for_status_def and_then_def
      split: sum.splits if_splits)

lemma fetch_precip_prob_http_error:
  "requests_get w (length tr0) (ForecastUrl lat lng) = Inr r \<Longrightarrow>
   400 \<le> status_code r \<and> status_code r < 600 \<Longrightarrow>
   fetch_precip_prob w lat lng tr0 =
     (Inl (RequestException (status_error r)), tr0 @ [HttpGet (ForecastUrl lat lng)])"
  by (simp add: fetch_precip_prob_def raise_for_status_def and_then_def)

lemma fetch_precip_prob_raised:
  "requests_get w (length tr0) (ForecastUrl lat lng) = Inl e \<Longrightarrow>
   fetch_precip_prob w lat lng tr0 = (Inl e, tr0 @ [HttpGet (ForecastUrl lat lng)])"
  by (simp add: fetch_precip_prob_def and_then_def)

lemma fetch_precip_prob_document:
  "requests_get w (length tr0) (ForecastUrl lat lng) = Inr r \<Longrightarrow>
   \<not> (400 \<le> status_code r \<and> status_code r < 600) \<Longrightarrow>
   json_body r = Inr data \<Longrightarrow>
   fetch_precip_prob w lat lng tr0 = (read_forecast w data, tr0 @ [HttpGet (ForecastUrl lat lng)])"
  by (auto simp: fetch_precip_prob_def raise_for_status_def and_then_def)

text \<open>What is read from a document whose hourly sequences are known.\<close>

lemma read_forecast_times:
  assumes "read_forecast w data = Inr wx" and "hourly_sequence data ''time'' = Some ts"
  shows "wx_times wx = JArr (take 3 ts)"
  using assms
  by (auto simp: read_forecast_def hourly_sequence_def and_then_def py_get_def py_slice3_def
      split: json.splits option.splits sum.splits if_splits)

lemma read_forecast_no_probs:
  assumes "hourly_sequence data ''precipitation_probability'' = Some []"
  shows "read_forecast w data =
           Inl (RuntimeError ''Weather data missing precipitation probabilities.'')"
  using assms
  by (auto simp: read_forecast_def hourly_sequence_def and_then_def py_get_def
      split: json.splits option.splits)

lemma read_forecast_falsy_probs:
  assumes "map_of kvs ''hourly'' = Some (JObj h)"
    and "map_of h ''precipitation_probability'' = Some v" and "\<not> truthy v"
  shows "read_forecast w (JObj kvs) =
           Inl (RuntimeError ''Weather data missing precipitation probabilities.'')"
  using assms
  by (simp add: read_forecast_def and_then_def py_get_def)

lemma read_forecast_first_prob:
  assumes "read_forecast w data = Inr wx"
    and "hourly_sequence data ''precipitation_probability'' = Some (x # xs)"
  shows "py_int w x = Inr (wx_prob wx)"
  using assms
  by (auto simp: read_forecast_def hourly_sequence_def and_then_def py_get_def py_index0_def
      split: json.splits option.splits sum.splits if_splits)

text \<open>
  The argument matters through its stripped form only, and a blank argument starts the
  run with a discovery.
\<close>

lemma check_for_rain_arg_ip:
  "arg_ip ip = arg_ip ip' \<Longrightarrow> check_for_rain w ip t = check_for_rain w ip' t"
  by (simp add: check_for_rain_def arg_ip_def)

lemma blank_starts_with_discovery:
  assumes "arg_ip ip = []"
  shows "\<exists>rest. snd (check_for_rain w ip t) = snd (get_public_ip w []) @ rest"
proof -
  obtain r tr where d: "get_public_ip w [] = (r, tr)" by (cases "get_public_ip w []")
  show ?thesis
  proof (cases r)
    case (Inl e)
    with path_discovery_failed [OF assms, of w e tr t] d show ?thesis by simp
  next
    case (Inr auto_ip)
    obtain g tr' where g: "geolocate w auto_ip tr = (g, tr')" by (cases "geolocate w auto_ip tr")
    from geolocate_trace [OF g] have tr': "tr' = tr @ [GeocoderIp auto_ip]" .
    show ?thesis
    proof (cases g)
      case (Inl first_err)
      with path_auto_geolocation_failed [OF assms, of w auto_ip tr first_err tr' t] d Inr g tr'
      show ?thesis by simp
    next
      case loc: (Inr loc)
      obtain lat lng c where "loc = (lat, lng, c)" by (cases loc)
      with path_auto_located [OF assms, of w auto_ip tr lat lng c tr' t] d Inr g loc tr'
      show ?thesis by (simp add: weather_lookup_trace)
    qed
  qed
qed

section \<open>Runs on the sample worlds\<close>

text \<open>Groups of defining equations, for running the program on a sample world.\<close>

lemmas world_defs = sample_world_def text_response_def json_response_def forecast_doc_def
  located_def not_located_def
lemmas string_defs = arg_ip_def strip_def isspace_def
lemmas fetch_defs = fetch_precip_prob_def raise_for_status_def read_forecast_def and_then_def
  py_get_def py_index0_def py_int_def py_slice3_def

lemma run_switch_any:
  "check_for_rain world_switch (Some ''5.6.7.8'') t =
    (success_items ''9.9.9.9'' ''your area'' 30 40 t 10 @
       [(''hour_sample'', JArr [JStr ''T00:00'', JStr ''T01:00'', JStr ''T02:00''])],
     [GeocoderIp ''5.6.7.8'', HttpGet (Url ''https://api.ipify.org''),
      GeocoderIp ''9.9.9.9'', HttpGet (ForecastUrl 30 40)])"
  by (simp add: check_for_rain_def get_public_ip_def endpoints_def geolocate_def
      weather_lookup_def success_items_def fetch_defs world_switch_def world_defs string_defs)

lemma run_testville:
  "check_for_rain world_testville None t =
    (success_items ''1.2.3.4'' ''Testville'' 10 20 t 45,
     [HttpGet (Url ''https://api.ipify.org''), GeocoderIp ''1.2.3.4'',
      HttpGet (ForecastUrl 10 20)])"
  by (simp add: check_for_rain_def get_public_ip_def endpoints_def geolocate_def
      weather_lookup_def success_items_def fetch_defs world_testville_def world_defs string_defs)

text \<open>
  The two scenarios of the specification, with the message written out: a blank
  address with threshold 20 in the first world, the address 5.6.7.8 with threshold 50
  in the second.
\<close>

lemma scenario_testville:
  "fst (check_for_rain world_testville (Some []) 20) =
     [(''ip'', JStr ''1.2.3.4''), (''location'', JStr ''Testville''),
      (''lat'', JFloat 10), (''lng'', JFloat 20), (''rain'', JBool True),
      (''precipitation_chance'', JInt 45), (''threshold'', JInt 20),
      (''message'', JStr ''Yes, 45% chance of rain soon in Testville.'')]"
proof -
  have "str_int 45 = ''45''" by code_simp
  moreover have "check_for_rain world_testville (Some []) 20 =
      check_for_rain world_testville None 20"
    by (rule check_for_rain_arg_ip) (simp add: arg_ip_def)
  ultimately show ?thesis by (simp add: run_testville success_items_def)
qed

lemma scenario_switch:
  "fst (check_for_rain world_switch (Some ''5.6.7.8'') 50) =
     [(''ip'', JStr ''9.9.9.9''), (''location'', JStr ''your area''),
      (''lat'', JFloat 30), (''lng'', JFloat 40), (''rain'', JBool False),
      (''precipitation_chance'', JInt 10), (''threshold'', JInt 50),
      (''message'', JStr ''No, 10% chance of rain soon in your area.''),
      (''hour_sample'', JArr [JStr ''T00:00'', JStr ''T01:00'', JStr ''T02:00''])]"
proof -
  have "str_int 10 = ''10''" by code_simp
  then show ?thesis by (simp add: run_switch_any success_items_def)
qed

lemma forecast_switch:
  "requests_get world_switch n (ForecastUrl lat lng) =
     Inr \<lparr>status_code = 200, status_error = [], body_text = [],
          json_body = Inr (forecast_doc
            [JStr ''T00:00'', JStr ''T01:00'', JStr ''T02:00'', JStr ''T03:00'']
            [JInt 10, JInt 80])\<rparr>"
  by (simp add: world_switch_def sample_world_def json_response_def)

lemma hourly_sequence_forecast_doc:
  "hourly_sequence (forecast_doc ts ps) ''time'' = Some ts"
  "hourly_sequence (forecast_doc ts ps) ''precipitation_probability'' = Some ps"
  by (simp_all add: hourly_sequence_def forecast_doc_def)

text \<open>
  A run for the address 8.8.8.8 in a world that locates it: one geolocation and one
  forecast request.
\<close>

lemma located_run:
  assumes "geolocate w ''8.8.8.8'' [] = (Inr (lat, lng, c), [GeocoderIp ''8.8.8.8''])"
  shows "check_for_rain w (Some ''8.8.8.8'') t =
    (fst (check_for_rain w (Some ''8.8.8.8'') t),
     [GeocoderIp ''8.8.8.8''] @ [HttpGet (ForecastUrl lat lng)])"
proof -
  have given: "arg_ip (Some ''8.8.8.8'') = ''8.8.8.8''" by (simp add: string_defs)
  with assms path_given_located [of "Some ''8.8.8.8''" w lat lng c "[GeocoderIp ''8.8.8.8'']" t]
  have "check_for_rain w (Some ''8.8.8.8'') t =
      weather_lookup w ''8.8.8.8'' lat lng c t [GeocoderIp ''8.8.8.8'']"
    by simp
  with weather_lookup_trace [of w "''8.8.8.8''" lat lng c t "[GeocoderIp ''8.8.8.8'']"]
  have "snd (check_for_rain w (Some ''8.8.8.8'') t) =
      [GeocoderIp ''8.8.8.8''] @ [HttpGet (ForecastUrl lat lng)]"
    by simp
  then show ?thesis by (metis prod.collapse)
qed

section \<open>Properties of the pipeline\<close>

text \<open>
  \<^verbatim>\<open>check_for_rain\<close> is a total function into dictionaries: each exception of a
  callee is a value (\<open>Inl\<close>) that one of the handlers of the source turns into an error
  record, and the source has no statement outside its \<^verbatim>\<open>try\<close> blocks that can
  raise for an argument that is a string or \<^verbatim>\<open>None\<close>.
\<close>

subsection \<open>Fallback after a failed geolocation of a given address\<close>

text \<open>
  Claim C1. Let the \<^verbatim>\<open>ip\<close> argument be non-blank once stripped and let its
  geolocation fail with \<open>first_err\<close>. Then one discovery follows (between one and three
  requests to the endpoints, right after the failed geolocation).
  \<^item> If the discovery fails with \<open>second_err\<close>, the result is the record whose only item
    is \<^verbatim>\<open>error\<close>, with the text of \<open>first_err\<close>, then
    ``; fallback to public IP failed: '', then the text of \<open>second_err\<close>; nothing is
    called after the discovery.
  \<^item> If the discovery returns \<open>auto_ip\<close> and the geolocation of \<open>auto_ip\<close> fails with
    \<open>second_err\<close>, the result is the same kind of record, and that one geolocation is
    the last call.
  \<^item> If both succeed, the pipeline goes on to the weather lookup with \<open>auto_ip\<close> and
    its location; the calls after the discovery are one geolocation of \<open>auto_ip\<close> and
    one forecast request, and a result without an \<^verbatim>\<open>error\<close> item has \<open>auto_ip\<close> as
    its \<^verbatim>\<open>ip\<close> item.
\<close>

theorem fallback_after_failed_geolocation:
  assumes "arg_ip ip \<noteq> []" and "geolocate w (arg_ip ip) [] = (Inl first_err, tr_a)"
  shows "tr_a = [GeocoderIp (arg_ip ip)] \<and>
    (\<exists>k. 1 \<le> k \<and> k \<le> 3 \<and>
         snd (get_public_ip w tr_a) = tr_a @ discovery_calls (take k endpoints)) \<and>
    (get_public_ip w tr_a = (Inl second_err, tr_b) \<longrightarrow>
       check_for_rain w ip t =
         ([(''error'', JStr (str_exn first_err @ ''; fallback to public IP failed: '' @
              str_exn second_err))], tr_b)) \<and>
    (get_public_ip w tr_a = (Inr auto_ip, tr_b) \<and>
     geolocate w auto_ip tr_b = (Inl second_err, tr_c) \<longrightarrow>
       check_for_rain w ip t =
         ([(''error'', JStr (str_exn first_err @ ''; fallback to public IP failed: '' @
              str_exn second_err))], tr_c) \<and>
       tr_c = tr_b @ [GeocoderIp auto_ip]) \<and>
    (get_public_ip w tr_a = (Inr auto_ip, tr_b) \<and>
     geolocate w auto_ip tr_b = (Inr (lat, lng, c), tr_c) \<longrightarrow>
       check_for_rain w ip t = weather_lookup w auto_ip lat lng c t tr_c \<and>
       snd (check_for_rain w ip t) =
         tr_b @ [GeocoderIp auto_ip, HttpGet (ForecastUrl lat lng)] \<and>
       (map_of (fst (check_for_rain w ip t)) ''error'' = None \<longrightarrow>
        map_of (fst (check_for_rain w ip t)) ''ip'' = Some (JStr auto_ip)))"
proof (intro conjI impI)
  show "tr_a = [GeocoderIp (arg_ip ip)]"
    using geolocate_trace [OF assms(2)] by simp
  show "\<exists>k. 1 \<le> k \<and> k \<le> 3 \<and>
      snd (get_public_ip w tr_a) = tr_a @ discovery_calls (take k endpoints)"
    by (rule get_public_ip_trace)
next
  assume "get_public_ip w tr_a = (Inl second_err, tr_b)"
  from path_fallback_discovery_failed [OF assms this]
  show "check_for_rain w ip t =
         ([(''error'', JStr (str_exn first_err @ ''; fallback to public IP failed: '' @
              str_exn second_err))], tr_b)"
    by (simp add: fallback_error_def)
next
  assume a: "get_public_ip w tr_a = (Inr auto_ip, tr_b) \<and>
     geolocate w auto_ip tr_b = (Inl second_err, tr_c)"
  then have d: "get_public_ip w tr_a = (Inr auto_ip, tr_b)"
    and g: "geolocate w auto_ip tr_b = (Inl second_err, tr_c)" by simp_all
  from path_fallback_geolocation_failed [OF assms d g]
  show "check_for_rain w ip t =
         ([(''error'', JStr (str_exn first_err @ ''; fallback to public IP failed: '' @
              str_exn second_err))], tr_c)"
    by (simp add: fallback_error_def)
  show "tr_c = tr_b @ [GeocoderIp auto_ip]" by (rule geolocate_trace [OF g])
next
  assume a: "get_public_ip w tr_a = (Inr auto_ip, tr_b) \<and>
     geolocate w auto_ip tr_b = (Inr (lat, lng, c), tr_c)"
  then have d: "get_public_ip w tr_a = (Inr auto_ip, tr_b)"
    and g: "geolocate w auto_ip tr_b = (Inr (lat, lng, c), tr_c)" by simp_all
  show run: "check_for_rain w ip t = weather_lookup w auto_ip lat lng c t tr_c"
    by (rule path_fallback_located [OF assms d g])
  show "snd (check_for_rain w ip t) =
         tr_b @ [GeocoderIp auto_ip, HttpGet (ForecastUrl lat lng)]"
    using run geolocate_trace [OF g] by (simp add: weather_lookup_trace)
  assume "map_of (fst (check_for_rain w ip t)) ''error'' = None"
  with run show "map_of (fst (check_for_rain w ip t)) ''ip'' = Some (JStr auto_ip)"
    by (simp add: weather_lookup_ip)
qed

theorem fallback_after_failed_geolocation_witness:
  "arg_ip (Some ''5.6.7.8'') \<noteq> [] \<and>
   geolocate world_switch (arg_ip (Some ''5.6.7.8'')) [] =
     (Inl (RuntimeError ''Could not geolocate IP 5.6.7.8.''), [GeocoderIp ''5.6.7.8'']) \<and>
   get_public_ip world_switch [GeocoderIp ''5.6.7.8''] =
     (Inr ''9.9.9.9'', [GeocoderIp ''5.6.7.8'', HttpGet (Url ''https://api.ipify.org'')]) \<and>
   geolocate world_switch ''9.9.9.9''
       [GeocoderIp ''5.6.7.8'', HttpGet (Url ''https://api.ipify.org'')] =
     (Inr (30, 40, ''your area''),
      [GeocoderIp ''5.6.7.8'', HttpGet (Url ''https://api.ipify.org''), GeocoderIp ''9.9.9.9'']) \<and>
   map_of (fst (check_for_rain world_switch (Some ''5.6.7.8'') 50)) ''error'' = None \<and>
   map_of (fst (check_for_rain world_switch (Some ''5.6.7.8'') 50)) ''ip'' = Some (JStr ''9.9.9.9'') \<and>
   snd (check_for_rain world_switch (Some ''5.6.7.8'') 50) =
     [GeocoderIp ''5.6.7.8'', HttpGet (Url ''https://api.ipify.org''),
      GeocoderIp ''9.9.9.9'', HttpGet (ForecastUrl 30 40)] \<and>
   geolocate world_offline (arg_ip (Some ''5.6.7.8'')) [] =
     (Inl (RuntimeError ''Could not geolocate IP 5.6.7.8.''), [GeocoderIp ''5.6.7.8'']) \<and>
   get_public_ip world_offline [GeocoderIp ''5.6.7.8''] =
     (Inl (RuntimeError ''Could not determine public IP from fallback services.''),
      [GeocoderIp ''5.6.7.8'', HttpGet (Url ''https://api.ipify.org''),
       HttpGet (Url ''https://ipinfo.io/ip''), HttpGet (Url ''https://icanhazip.com'')]) \<and>
   check_for_rain world_offline (Some ''5.6.7.8'') 50 =
     ([(''error'', JStr ''Could not geolocate IP 5.6.7.8.; fallback to public IP failed: Could not determine public IP from fallback services.'')],
      [GeocoderIp ''5.6.7.8'', HttpGet (Url ''https://api.ipify.org''),
       HttpGet (Url ''https://ipinfo.io/ip''), HttpGet (Url ''https://icanhazip.com'')]) \<and>
   geolocate world_nowhere (arg_ip (Some ''5.6.7.8'')) [] =
     (Inl (RuntimeError ''Could not geolocate IP 5.6.7.8.''), [GeocoderIp ''5.6.7.8'']) \<and>
   get_public_ip world_nowhere [GeocoderIp ''5.6.7.8''] =
     (Inr ''9.9.9.9'', [GeocoderIp ''5.6.7.8'', HttpGet (Url ''https://api.ipify.org'')]) \<and>
   geolocate world_nowhere ''9.9.9.9''
       [GeocoderIp ''5.6.7.8'', HttpGet (Url ''https://api.ipify.org'')] =
     (Inl (RuntimeError ''Could not geolocate IP 9.9.9.9.''),
      [GeocoderIp ''5.6.7.8'', HttpGet (Url ''https://api.ipify.org''), GeocoderIp ''9.9.9.9'']) \<and>
   check_for_rain world_nowhere (Some ''5.6.7.8'') 50 =
     ([(''error'', JStr ''Could not geolocate IP 5.6.7.8.; fallback to public IP failed: Could not geolocate IP 9.9.9.9.'')],
      [GeocoderIp ''5.6.7.8'', HttpGet (Url ''https://api.ipify.org''), GeocoderIp ''9.9.9.9''])"
proof -
  have given: "arg_ip (Some ''5.6.7.8'') = ''5.6.7.8''"
    by (simp add: string_defs)
  then have nonblank: "arg_ip (Some ''5.6.7.8'') \<noteq> []" by simp
  have g1: "geolocate world_switch (arg_ip (Some ''5.6.7.8'')) [] =
     (Inl (RuntimeError ''Could not geolocate IP 5.6.7.8.''), [GeocoderIp ''5.6.7.8''])"
    by (simp add: given geolocate_def and_then_def world_switch_def world_defs)
  have d: "get_public_ip world_switch [GeocoderIp ''5.6.7.8''] =
     (Inr ''9.9.9.9'', [GeocoderIp ''5.6.7.8'', HttpGet (Url ''https://api.ipify.org'')])"
    by (simp add: get_public_ip_def endpoints_def world_switch_def world_defs string_defs)
  have g2: "geolocate world_switch ''9.9.9.9''
       [GeocoderIp ''5.6.7.8'', HttpGet (Url ''https://api.ipify.org'')] =
     (Inr (30, 40, ''your area''),
      [GeocoderIp ''5.6.7.8'', HttpGet (Url ''https://api.ipify.org''), GeocoderIp ''9.9.9.9''])"
    by (simp add: geolocate_def and_then_def world_switch_def world_defs)
  have ok: "map_of (fst (check_for_rain world_switch (Some ''5.6.7.8'') 50)) ''error'' = None"
    by (simp add: run_switch_any success_items_def)
  have g1': "geolocate world_offline (arg_ip (Some ''5.6.7.8'')) [] =
     (Inl (RuntimeError ''Could not geolocate IP 5.6.7.8.''), [GeocoderIp ''5.6.7.8''])"
    by (simp add: given geolocate_def and_then_def world_offline_def world_defs)
  have d': "get_public_ip world_offline [GeocoderIp ''5.6.7.8''] =
     (Inl (RuntimeError ''Could not determine public IP from fallback services.''),
      [GeocoderIp ''5.6.7.8'', HttpGet (Url ''https://api.ipify.org''),
       HttpGet (Url ''https://ipinfo.io/ip''), HttpGet (Url ''https://icanhazip.com'')])"
    by (simp add: get_public_ip_def endpoints_def world_offline_def world_defs)
  have g1'': "geolocate world_nowhere (arg_ip (Some ''5.6.7.8'')) [] =
     (Inl (RuntimeError ''Could not geolocate IP 5.6.7.8.''), [GeocoderIp ''5.6.7.8''])"
    by (simp add: given geolocate_def and_then_def world_nowhere_def world_defs)
  have d'': "get_public_ip world_nowhere [GeocoderIp ''5.6.7.8''] =
     (Inr ''9.9.9.9'', [GeocoderIp ''5.6.7.8'', HttpGet (Url ''https://api.ipify.org'')])"
    by (simp add: get_public_ip_def endpoints_def world_nowhere_def world_defs string_defs)
  have g2'': "geolocate world_nowhere ''9.9.9.9''
       [GeocoderIp ''5.6.7.8'', HttpGet (Url ''https://api.ipify.org'')] =
     (Inl (RuntimeError ''Could not geolocate IP 9.9.9.9.''),
      [GeocoderIp ''5.6.7.8'', HttpGet (Url ''https://api.ipify.org''), GeocoderIp ''9.9.9.9''])"
    by (simp add: geolocate_def and_then_def world_nowhere_def world_defs)
  from fallback_after_failed_geolocation [OF nonblank g1,
      where auto_ip = "''9.9.9.9''" and lat = 30 and lng = 40 and c = "''your area''" and t = 50
        and tr_b = "[GeocoderIp ''5.6.7.8'', HttpGet (Url ''https://api.ipify.org'')]"
        and tr_c = "[GeocoderIp ''5.6.7.8'', HttpGet (Url ''https://api.ipify.org''),
          GeocoderIp ''9.9.9.9'']"]
    d g2 ok
  have switch: "map_of (fst (check_for_rain world_switch (Some ''5.6.7.8'') 50)) ''ip'' =
        Some (JStr ''9.9.9.9'') \<and>
      snd (check_for_rain world_switch (Some ''5.6.7.8'') 50) =
        [GeocoderIp ''5.6.7.8'', HttpGet (Url ''https://api.ipify.org''),
         GeocoderIp ''9.9.9.9'', HttpGet (ForecastUrl 30 40)]"
    by auto
  from fallback_after_failed_geolocation [OF nonblank g1', where t = 50
      and second_err = "RuntimeError ''Could not determine public IP from fallback services.''"
      and tr_b = "[GeocoderIp ''5.6.7.8'', HttpGet (Url ''https://api.ipify.org''),
       HttpGet (Url ''https://ipinfo.io/ip''), HttpGet (Url ''https://icanhazip.com'')]"] d'
  have offline: "check_for_rain world_offline (Some ''5.6.7.8'') 50 =
     ([(''error'', JStr ''Could not geolocate IP 5.6.7.8.; fallback to public IP failed: Could not determine public IP from fallback services.'')],
      [GeocoderIp ''5.6.7.8'', HttpGet (Url ''https://api.ipify.org''),
       HttpGet (Url ''https://ipinfo.io/ip''), HttpGet (Url ''https://icanhazip.com'')])"
    by auto
  from fallback_after_failed_geolocation [OF nonblank g1'', where t = 50
      and auto_ip = "''9.9.9.9''"
      and second_err = "RuntimeError ''Could not geolocate IP 9.9.9.9.''"
      and tr_b = "[GeocoderIp ''5.6.7.8'', HttpGet (Url ''https://api.ipify.org'')]"
      and tr_c = "[GeocoderIp ''5.6.7.8'', HttpGet (Url ''https://api.ipify.org''),
        GeocoderIp ''9.9.9.9'']"] d'' g2''
  have nowhere: "check_for_rain world_nowhere (Some ''5.6.7.8'') 50 =
     ([(''error'', JStr ''Could not geolocate IP 5.6.7.8.; fallback to public IP failed: Could not geolocate IP 9.9.9.9.'')],
      [GeocoderIp ''5.6.7.8'', HttpGet (Url ''https://api.ipify.org''), GeocoderIp ''9.9.9.9''])"
    by auto
  from nonblank g1 d g2 ok switch g1' d' offline g1'' d'' g2'' nowhere show ?thesis
    by (intro conjI) simp_all
qed

subsection \<open>Auto-detected address, failed geolocation\<close>

text \<open>
  Claim C2. When the \<^verbatim>\<open>ip\<close> argument is blank, the discovery returns an address and
  the geolocation of that address fails with \<open>first_err\<close>, \<^verbatim>\<open>check_for_rain\<close> returns
  the record whose only item is \<^verbatim>\<open>error\<close> with exactly the text of \<open>first_err\<close>, and
  the failed geolocation is the last call of the trace: no second discovery and no
  second geolocation follow it.
\<close>

theorem auto_detected_no_fallback:
  assumes "arg_ip ip = []" and "get_public_ip w [] = (Inr auto_ip, tr)"
    and "geolocate w auto_ip tr = (Inl first_err, tr1)"
  shows "check_for_rain w ip t = ([(''error'', JStr (str_exn first_err))], tr1) \<and>
         tr1 = tr @ [GeocoderIp auto_ip]"
  using path_auto_geolocation_failed [OF assms] geolocate_trace [OF assms(3)] by simp

theorem auto_detected_no_fallback_witness:
  "arg_ip None = [] \<and>
   get_public_ip world_nowhere [] = (Inr ''9.9.9.9'', [HttpGet (Url ''https://api.ipify.org'')]) \<and>
   geolocate world_nowhere ''9.9.9.9'' [HttpGet (Url ''https://api.ipify.org'')] =
     (Inl (RuntimeError ''Could not geolocate IP 9.9.9.9.''),
      [HttpGet (Url ''https://api.ipify.org''), GeocoderIp ''9.9.9.9'']) \<and>
   check_for_rain world_nowhere None 20 =
     ([(''error'', JStr ''Could not geolocate IP 9.9.9.9.'')],
      [HttpGet (Url ''https://api.ipify.org''), GeocoderIp ''9.9.9.9''])"
proof -
  have blank: "arg_ip None = []"
    by (simp add: string_defs)
  have disc: "get_public_ip world_nowhere [] =
      (Inr ''9.9.9.9'', [HttpGet (Url ''https://api.ipify.org'')])"
    by (simp add: get_public_ip_def endpoints_def world_nowhere_def world_defs string_defs)
  have geo: "geolocate world_nowhere ''9.9.9.9'' [HttpGet (Url ''https://api.ipify.org'')] =
     (Inl (RuntimeError ''Could not geolocate IP 9.9.9.9.''),
      [HttpGet (Url ''https://api.ipify.org''), GeocoderIp ''9.9.9.9''])"
    by (simp add: geolocate_def and_then_def world_nowhere_def world_defs)
  from auto_detected_no_fallback [OF blank disc geo, of 20] blank disc geo show ?thesis by simp
qed

subsection \<open>The rain flag\<close>

text \<open>
  Claim C3. In every run of \<^verbatim>\<open>check_for_rain\<close> that returns a record without an
  \<^verbatim>\<open>error\<close> item, the run ended with a forecast lookup that returned a sample
  \<open>wx\<close>; the record reports the probability \<open>wx_prob wx\<close> and the caller's threshold
  \<open>t\<close>, and its \<^verbatim>\<open>rain\<close> item is the truth value of \<open>wx_prob wx > t\<close>: true above
  the threshold, false at the threshold and below.
\<close>

theorem rain_flag:
  assumes "check_for_rain w ip t = (res, tr)" and "map_of res ''error'' = None"
  shows "\<exists>lat lng tr0 wx. fetch_precip_prob w lat lng tr0 = (Inr wx, tr) \<and>
           map_of res ''precipitation_chance'' = Some (JInt (wx_prob wx)) \<and>
           map_of res ''threshold'' = Some (JInt t) \<and>
           map_of res ''rain'' = Some (JBool (wx_prob wx > t)) \<and>
           (wx_prob wx > t \<longrightarrow> map_of res ''rain'' = Some (JBool True)) \<and>
           (wx_prob wx \<le> t \<longrightarrow> map_of res ''rain'' = Some (JBool False))"
proof -
  from check_for_rain_success [OF assms]
  obtain ip' c lat lng tr0 wx where f: "fetch_precip_prob w lat lng tr0 = (Inr wx, tr)"
    and res: "res = success_items ip' c lat lng t (wx_prob wx) @
             (if truthy (wx_times wx) then [(''hour_sample'', wx_times wx)] else [])"
    by blast
  from res have "map_of res ''precipitation_chance'' = Some (JInt (wx_prob wx))"
    and "map_of res ''threshold'' = Some (JInt t)"
    and "map_of res ''rain'' = Some (JBool (wx_prob wx > t))"
    by (simp_all only: map_of_success_items)
  with f have "fetch_precip_prob w lat lng tr0 = (Inr wx, tr) \<and>
           map_of res ''precipitation_chance'' = Some (JInt (wx_prob wx)) \<and>
           map_of res ''threshold'' = Some (JInt t) \<and>
           map_of res ''rain'' = Some (JBool (wx_prob wx > t)) \<and>
           (wx_prob wx > t \<longrightarrow> map_of res ''rain'' = Some (JBool True)) \<and>
           (wx_prob wx \<le> t \<longrightarrow> map_of res ''rain'' = Some (JBool False))"
    by simp
  then show ?thesis by blast
qed

theorem rain_flag_witness:
  "map_of (fst (check_for_rain world_switch (Some ''5.6.7.8'') 10)) ''error'' = None \<and>
   map_of (fst (check_for_rain world_switch (Some ''5.6.7.8'') 10)) ''precipitation_chance'' =
     Some (JInt 10) \<and>
   map_of (fst (check_for_rain world_switch (Some ''5.6.7.8'') 10)) ''rain'' =
     Some (JBool False) \<and>
   map_of (fst (check_for_rain world_testville None 20)) ''error'' = None \<and>
   map_of (fst (check_for_rain world_testville None 20)) ''precipitation_chance'' =
     Some (JInt 45) \<and>
   map_of (fst (check_for_rain world_testville None 20)) ''rain'' = Some (JBool True)"
proof -
  have e1: "map_of (fst (check_for_rain world_switch (Some ''5.6.7.8'') 10)) ''error'' = None"
    by (simp add: run_switch_any success_items_def)
  have p1: "map_of (fst (check_for_rain world_switch (Some ''5.6.7.8'') 10))
      ''precipitation_chance'' = Some (JInt 10)"
    by (simp add: run_switch_any success_items_def)
  have e2: "map_of (fst (check_for_rain world_testville None 20)) ''error'' = None"
    by (simp add: run_testville success_items_def)
  have p2: "map_of (fst (check_for_rain world_testville None 20))
      ''precipitation_chance'' = Some (JInt 45)"
    by (simp add: run_testville success_items_def)
  from rain_flag [OF prod.collapse [symmetric] e1] p1
  have r1: "map_of (fst (check_for_rain world_switch (Some ''5.6.7.8'') 10)) ''rain'' =
     Some (JBool False)"
    by auto
  from rain_flag [OF prod.collapse [symmetric] e2] p2
  have r2: "map_of (fst (check_for_rain world_testville None 20)) ''rain'' = Some (JBool True)"
    by auto
  from e1 p1 r1 e2 p2 r2 show ?thesis by simp
qed

subsection \<open>Blank address, failed discovery\<close>

text \<open>
  Claim C4. When the \<^verbatim>\<open>ip\<close> argument is blank once stripped (\<open>arg_ip ip = []\<close>) and
  the discovery of the public IP fails with an exception \<open>e\<close>, \<^verbatim>\<open>check_for_rain\<close>
  returns the record whose only item is \<^verbatim>\<open>error\<close>, with the text
  ``Could not determine public IP: '' followed by the text of \<open>e\<close>; the trace is the one
  of the discovery, and it holds no geolocation call and no forecast request.
\<close>

theorem blank_ip_discovery_failure:
  assumes "arg_ip ip = []" and "get_public_ip w [] = (Inl e, tr)"
  shows "check_for_rain w ip t =
           ([(''error'', JStr (''Could not determine public IP: '' @ str_exn e))], tr) \<and>
         GeocoderIp a \<notin> set tr \<and> HttpGet (ForecastUrl lat lng) \<notin> set tr"
proof -
  from get_public_ip_trace [of w "[]"] assms(2) obtain k where
    "tr = discovery_calls (take k endpoints)" by auto
  then have "GeocoderIp a \<notin> set tr \<and> HttpGet (ForecastUrl lat lng) \<notin> set tr"
    by (auto simp: discovery_calls_def)
  with path_discovery_failed [OF assms] show ?thesis by simp
qed

theorem blank_ip_discovery_failure_witness:
  "arg_ip (Some [CHR '' '', CHR 0x09]) = [] \<and>
   get_public_ip world_offline [] =
     (Inl (RuntimeError ''Could not determine public IP from fallback services.''),
      [HttpGet (Url ''https://api.ipify.org''), HttpGet (Url ''https://ipinfo.io/ip''),
       HttpGet (Url ''https://icanhazip.com'')]) \<and>
   check_for_rain world_offline (Some [CHR '' '', CHR 0x09]) 20 =
     ([(''error'', JStr ''Could not determine public IP: Could not determine public IP from fallback services.'')],
      [HttpGet (Url ''https://api.ipify.org''), HttpGet (Url ''https://ipinfo.io/ip''),
       HttpGet (Url ''https://icanhazip.com'')])"
proof -
  have blank: "arg_ip (Some [CHR '' '', CHR 0x09]) = []"
    by (simp add: string_defs)
  have disc: "get_public_ip world_offline [] =
     (Inl (RuntimeError ''Could not determine public IP from fallback services.''),
      [HttpGet (Url ''https://api.ipify.org''), HttpGet (Url ''https://ipinfo.io/ip''),
       HttpGet (Url ''https://icanhazip.com'')])"
    by (simp add: get_public_ip_def endpoints_def world_offline_def world_defs)
  from blank_ip_discovery_failure [OF blank disc, of 20] blank disc show ?thesis by simp
qed

subsection \<open>Failures of the weather lookup\<close>

text \<open>
  Claim C5, as the program has it. Let a run of \<^verbatim>\<open>check_for_rain\<close> end with a
  forecast request for \<open>(lat, lng)\<close>.
  \<^item> If the request raises a \<^verbatim>\<open>RequestException\<close> with text \<open>m\<close>, the result is the
    record whose only item is \<^verbatim>\<open>error\<close> with ``Failed to fetch weather data: ''
    followed by \<open>m\<close>.
  \<^item> If the request is answered with a status from 400 to 599, the statuses for which
    \<^verbatim>\<open>raise_for_status\<close> raises, the result is that record with the text of the
    \<^verbatim>\<open>HTTPError\<close> in the place of \<open>m\<close>.
  \<^item> If the status is any other and the hourly sequence of precipitation probabilities
    of the document is missing or empty, or the document has a false value (such as
    \<^verbatim>\<open>null\<close>) in its place, the result is the record whose only item is
    \<^verbatim>\<open>error\<close> with just ``Weather data missing precipitation probabilities.''
  \<^item> If the status is any other, that sequence starts with \<open>x\<close> and the result has no
    \<^verbatim>\<open>error\<close> item, the reported probability is \<^verbatim>\<open>int(x)\<close>.
  The two error texts are never equal.

  The claim as it was worded, with every status outside 200 to 299 a failure, does not
  hold: the last theorem of this subsection runs the program on an answer with the
  status 300.
\<close>

theorem weather_failures:
  assumes "check_for_rain w ip t = (res, tr0 @ [HttpGet (ForecastUrl lat lng)])"
  shows
   "(requests_get w (length tr0) (ForecastUrl lat lng) = Inl (RequestException m) \<longrightarrow>
       res = [(''error'', JStr (''Failed to fetch weather data: '' @ m))]) \<and>
    (requests_get w (length tr0) (ForecastUrl lat lng) = Inr r \<and>
     400 \<le> status_code r \<and> status_code r < 600 \<longrightarrow>
       res = [(''error'', JStr (''Failed to fetch weather data: '' @ status_error r))]) \<and>
    (requests_get w (length tr0) (ForecastUrl lat lng) = Inr r \<and>
     \<not> (400 \<le> status_code r \<and> status_code r < 600) \<and>
     json_body r = Inr data \<and>
     hourly_sequence data ''precipitation_probability'' = Some [] \<longrightarrow>
       res = [(''error'', JStr ''Weather data missing precipitation probabilities.'')]) \<and>
    (requests_get w (length tr0) (ForecastUrl lat lng) = Inr r \<and>
     \<not> (400 \<le> status_code r \<and> status_code r < 600) \<and>
     json_body r = Inr (JObj kvs) \<and> map_of kvs ''hourly'' = Some (JObj h) \<and>
     map_of h ''precipitation_probability'' = Some v \<and> \<not> truthy v \<longrightarrow>
       res = [(''error'', JStr ''Weather data missing precipitation probabilities.'')]) \<and>
    (requests_get w (length tr0) (ForecastUrl lat lng) = Inr r \<and>
     \<not> (400 \<le> status_code r \<and> status_code r < 600) \<and>
     json_body r = Inr data \<and>
     hourly_sequence data ''precipitation_probability'' = Some (x # xs) \<and>
     map_of res ''error'' = None \<longrightarrow>
       (\<exists>p. py_int w x = Inr p \<and> map_of res ''precipitation_chance'' = Some (JInt p))) \<and>
    ''Failed to fetch weather data: '' @ m \<noteq>
      ''Weather data missing precipitation probabilities.''"
proof -
  from check_for_rain_forecast [OF assms] obtain ip' c where
    run: "weather_lookup w ip' lat lng c t tr0 = (res, tr0 @ [HttpGet (ForecastUrl lat lng)])"
    by blast
  have raised: "res = [(''error'', JStr (''Failed to fetch weather data: '' @ m))]"
    if "requests_get w (length tr0) (ForecastUrl lat lng) = Inl (RequestException m)"
    using weather_lookup_failure [OF fetch_precip_prob_raised [OF that], of ip' c t] run
    by simp
  have status: "res = [(''error'', JStr (''Failed to fetch weather data: '' @ status_error r))]"
    if "requests_get w (length tr0) (ForecastUrl lat lng) = Inr r"
      "400 \<le> status_code r \<and> status_code r < 600"
    using weather_lookup_failure [OF fetch_precip_prob_http_error [OF that], of ip' c t] run
    by simp
  have missing: "res = [(''error'', JStr ''Weather data missing precipitation probabilities.'')]"
    if "requests_get w (length tr0) (ForecastUrl lat lng) = Inr r"
      "\<not> (400 \<le> status_code r \<and> status_code r < 600)"
      "json_body r = Inr data" "hourly_sequence data ''precipitation_probability'' = Some []"
  proof -
    from fetch_precip_prob_document [OF that(1-3)] read_forecast_no_probs [OF that(4), of w]
    have "fetch_precip_prob w lat lng tr0 =
      (Inl (RuntimeError ''Weather data missing precipitation probabilities.''),
       tr0 @ [HttpGet (ForecastUrl lat lng)])"
      by simp
    from weather_lookup_failure [OF this, of ip' c t] run show ?thesis by simp
  qed
  have falsy: "res = [(''error'', JStr ''Weather data missing precipitation probabilities.'')]"
    if "requests_get w (length tr0) (ForecastUrl lat lng) = Inr r"
      "\<not> (400 \<le> status_code r \<and> status_code r < 600)"
      "json_body r = Inr (JObj kvs)" "map_of kvs ''hourly'' = Some (JObj h)"
      "map_of h ''precipitation_probability'' = Some v" "\<not> truthy v"
  proof -
    from fetch_precip_prob_document [OF that(1-3)]
      read_forecast_falsy_probs [OF that(4-6), of w]
    have "fetch_precip_prob w lat lng tr0 =
      (Inl (RuntimeError ''Weather data missing precipitation probabilities.''),
       tr0 @ [HttpGet (ForecastUrl lat lng)])"
      by simp
    from weather_lookup_failure [OF this, of ip' c t] run show ?thesis by simp
  qed
  have first: "\<exists>p. py_int w x = Inr p \<and> map_of res ''precipitation_chance'' = Some (JInt p)"
    if "requests_get w (length tr0) (ForecastUrl lat lng) = Inr r"
      "\<not> (400 \<le> status_code r \<and> status_code r < 600)"
      "json_body r = Inr data"
      "hourly_sequence data ''precipitation_probability'' = Some (x # xs)"
      "map_of res ''error'' = None"
  proof -
    have f: "fetch_precip_prob w lat lng tr0 =
        (read_forecast w data, tr0 @ [HttpGet (ForecastUrl lat lng)])"
      by (rule fetch_precip_prob_document [OF that(1-3)])
    show ?thesis
    proof (cases "read_forecast w data")
      case (Inl e)
      with f weather_lookup_failure [of w lat lng tr0 e _ ip' c t] run that(5)
      show ?thesis by (auto split: if_splits)
    next
      case (Inr wx)
      with f weather_lookup_success [of w lat lng tr0 wx _ ip' c t] run
      have "res = success_items ip' c lat lng t (wx_prob wx) @
          (if truthy (wx_times wx) then [(''hour_sample'', wx_times wx)] else [])"
        by simp
      then have "map_of res ''precipitation_chance'' = Some (JInt (wx_prob wx))"
        by (simp only: map_of_success_items)
      with read_forecast_first_prob [OF Inr that(4)] show ?thesis by simp
    qed
  qed
  have "''Failed to fetch weather data: '' @ m \<noteq>
      ''Weather data missing precipitation probabilities.''"
    by simp
  with raised status missing falsy first show ?thesis by blast
qed

theorem weather_failures_witness:
  "requests_get world_http_error (length [GeocoderIp ''8.8.8.8'']) (ForecastUrl 10 20) =
     Inr \<lparr>status_code = 503, status_error = ''503 Server Error'', body_text = [],
          json_body = Inl (OtherException ''not JSON'')\<rparr> \<and>
   check_for_rain world_http_error (Some ''8.8.8.8'') 50 =
     ([(''error'', JStr ''Failed to fetch weather data: 503 Server Error'')],
      [GeocoderIp ''8.8.8.8''] @ [HttpGet (ForecastUrl 10 20)]) \<and>
   requests_get world_no_probs (length [GeocoderIp ''8.8.8.8'']) (ForecastUrl 10 20) =
     Inr \<lparr>status_code = 200, status_error = [], body_text = [],
          json_body = Inr (forecast_doc [JStr ''T00:00''] [])\<rparr> \<and>
   hourly_sequence (forecast_doc [JStr ''T00:00''] []) ''precipitation_probability'' = Some [] \<and>
   check_for_rain world_no_probs (Some ''8.8.8.8'') 50 =
     ([(''error'', JStr ''Weather data missing precipitation probabilities.'')],
      [GeocoderIp ''8.8.8.8''] @ [HttpGet (ForecastUrl 10 20)]) \<and>
   requests_get world_null_probs (length [GeocoderIp ''8.8.8.8'']) (ForecastUrl 10 20) =
     Inr \<lparr>status_code = 200, status_error = [], body_text = [],
          json_body = Inr (JObj [(''hourly'', JObj [(''precipitation_probability'', JNull)])])\<rparr> \<and>
   check_for_rain world_null_probs (Some ''8.8.8.8'') 50 =
     ([(''error'', JStr ''Weather data missing precipitation probabilities.'')],
      [GeocoderIp ''8.8.8.8''] @ [HttpGet (ForecastUrl 10 20)]) \<and>
   hourly_sequence (forecast_doc
       [JStr ''T00:00'', JStr ''T01:00'', JStr ''T02:00'', JStr ''T03:00''] [JInt 10, JInt 80])
     ''precipitation_probability'' = Some [JInt 10, JInt 80] \<and>
   py_int world_switch (JInt 10) = Inr 10 \<and>
   map_of (fst (check_for_rain world_switch (Some ''5.6.7.8'') 50)) ''error'' = None \<and>
   map_of (fst (check_for_rain world_switch (Some ''5.6.7.8'') 50)) ''precipitation_chance'' =
     Some (JInt 10)"
proof -
  have g1: "geolocate world_http_error ''8.8.8.8'' [] =
      (Inr (10, 20, ''Testville''), [GeocoderIp ''8.8.8.8''])"
    by (simp add: geolocate_def and_then_def world_http_error_def world_defs)
  have r1: "requests_get world_http_error (length [GeocoderIp ''8.8.8.8'']) (ForecastUrl 10 20) =
     Inr \<lparr>status_code = 503, status_error = ''503 Server Error'', body_text = [],
          json_body = Inl (OtherException ''not JSON'')\<rparr>"
    by (simp add: world_http_error_def world_defs)
  from weather_failures [OF located_run [OF g1, of 50],
      where r = "\<lparr>status_code = 503, status_error = ''503 Server Error'', body_text = [],
          json_body = Inl (OtherException ''not JSON'')\<rparr>"] r1
  have "fst (check_for_rain world_http_error (Some ''8.8.8.8'') 50) =
      [(''error'', JStr ''Failed to fetch weather data: 503 Server Error'')]"
    by simp
  with located_run [OF g1, of 50]
  have w1: "check_for_rain world_http_error (Some ''8.8.8.8'') 50 =
     ([(''error'', JStr ''Failed to fetch weather data: 503 Server Error'')],
      [GeocoderIp ''8.8.8.8''] @ [HttpGet (ForecastUrl 10 20)])"
    by simp
  have g2: "geolocate world_no_probs ''8.8.8.8'' [] =
      (Inr (10, 20, ''Testville''), [GeocoderIp ''8.8.8.8''])"
    by (simp add: geolocate_def and_then_def world_no_probs_def world_defs)
  have r2: "requests_get world_no_probs (length [GeocoderIp ''8.8.8.8'']) (ForecastUrl 10 20) =
     Inr \<lparr>status_code = 200, status_error = [], body_text = [],
          json_body = Inr (forecast_doc [JStr ''T00:00''] [])\<rparr>"
    by (simp add: world_no_probs_def world_defs)
  have h2: "hourly_sequence (forecast_doc [JStr ''T00:00''] []) ''precipitation_probability'' =
      Some []"
    by (rule hourly_sequence_forecast_doc)
  from weather_failures [OF located_run [OF g2, of 50],
      where r = "\<lparr>status_code = 200, status_error = [], body_text = [],
          json_body = Inr (forecast_doc [JStr ''T00:00''] [])\<rparr>"
      and data = "forecast_doc [JStr ''T00:00''] []"] r2 h2
  have "fst (check_for_rain world_no_probs (Some ''8.8.8.8'') 50) =
      [(''error'', JStr ''Weather data missing precipitation probabilities.'')]"
    by simp
  with located_run [OF g2, of 50]
  have w2: "check_for_rain world_no_probs (Some ''8.8.8.8'') 50 =
     ([(''error'', JStr ''Weather data missing precipitation probabilities.'')],
      [GeocoderIp ''8.8.8.8''] @ [HttpGet (ForecastUrl 10 20)])"
    by simp
  have g4: "geolocate world_null_probs ''8.8.8.8'' [] =
      (Inr (10, 20, ''Testville''), [GeocoderIp ''8.8.8.8''])"
    by (simp add: geolocate_def and_then_def world_null_probs_def world_defs)
  have r4: "requests_get world_null_probs (length [GeocoderIp ''8.8.8.8'']) (ForecastUrl 10 20) =
     Inr \<lparr>status_code = 200, status_error = [], body_text = [],
          json_body = Inr (JObj [(''hourly'', JObj [(''precipitation_probability'', JNull)])])\<rparr>"
    by (simp add: world_null_probs_def world_defs)
  from weather_failures [OF located_run [OF g4, of 50],
      where r = "\<lparr>status_code = 200, status_error = [], body_text = [],
          json_body = Inr (JObj [(''hourly'', JObj [(''precipitation_probability'', JNull)])])\<rparr>"
      and kvs = "[(''hourly'', JObj [(''precipitation_probability'', JNull)])]"
      and h = "[(''precipitation_probability'', JNull)]" and v = JNull] r4
  have "fst (check_for_rain world_null_probs (Some ''8.8.8.8'') 50) =
      [(''error'', JStr ''Weather data missing precipitation probabilities.'')]"
    by simp
  with located_run [OF g4, of 50]
  have w4: "check_for_rain world_null_probs (Some ''8.8.8.8'') 50 =
     ([(''error'', JStr ''Weather data missing precipitation probabilities.'')],
      [GeocoderIp ''8.8.8.8''] @ [HttpGet (ForecastUrl 10 20)])"
    by simp
  have run3: "check_for_rain world_switch (Some ''5.6.7.8'') 50 =
      (fst (check_for_rain world_switch (Some ''5.6.7.8'') 50),
       [GeocoderIp ''5.6.7.8'', HttpGet (Url ''https://api.ipify.org''),
        GeocoderIp ''9.9.9.9''] @ [HttpGet (ForecastUrl 30 40)])"
    by (simp add: run_switch_any)
  have h3: "hourly_sequence (forecast_doc
       [JStr ''T00:00'', JStr ''T01:00'', JStr ''T02:00'', JStr ''T03:00''] [JInt 10, JInt 80])
     ''precipitation_probability'' = Some [JInt 10, JInt 80]"
    by (rule hourly_sequence_forecast_doc)
  have i3: "py_int world_switch (JInt 10) = Inr 10" by (simp add: py_int_def)
  have e3: "map_of (fst (check_for_rain world_switch (Some ''5.6.7.8'') 50)) ''error'' = None"
    by (simp add: run_switch_any success_items_def)
  from weather_failures [OF run3, where data = "forecast_doc
       [JStr ''T00:00'', JStr ''T01:00'', JStr ''T02:00'', JStr ''T03:00''] [JInt 10, JInt 80]"
      and x = "JInt 10" and xs = "[JInt 80]"
      and r = "\<lparr>status_code = 200, status_error = [], body_text = [],
          json_body = Inr (forecast_doc
            [JStr ''T00:00'', JStr ''T01:00'', JStr ''T02:00'', JStr ''T03:00'']
            [JInt 10, JInt 80])\<rparr>"] h3 e3 i3
  have p3: "map_of (fst (check_for_rain world_switch (Some ''5.6.7.8'') 50))
      ''precipitation_chance'' = Some (JInt 10)"
    by (auto simp: forecast_switch)
  from r1 w1 r2 h2 w2 r4 w4 h3 i3 e3 p3 show ?thesis by (intro conjI)
qed

text \<open>
  The forecast service answers the request of the run with the status 300, which is
  outside 200 to 299, and the run returns a success record: the answer is not treated
  as a failure.
\<close>

theorem non_2xx_response_accepted:
  "requests_get world_multiple_choices (length [GeocoderIp ''8.8.8.8'']) (ForecastUrl 10 20) =
     Inr \<lparr>status_code = 300, status_error = [], body_text = [],
          json_body = Inr (forecast_doc [] [JInt 45])\<rparr> \<and>
   check_for_rain world_multiple_choices (Some ''8.8.8.8'') 50 =
     ([(''ip'', JStr ''8.8.8.8''), (''location'', JStr ''Testville''),
       (''lat'', JFloat 10), (''lng'', JFloat 20), (''rain'', JBool False),
       (''precipitation_chance'', JInt 45), (''threshold'', JInt 50),
       (''message'', JStr ''No, 45% chance of rain soon in Testville.'')],
      [GeocoderIp ''8.8.8.8'', HttpGet (ForecastUrl 10 20)]) \<and>
   map_of (fst (check_for_rain world_multiple_choices (Some ''8.8.8.8'') 50)) ''error'' = None"
proof -
  have r: "requests_get world_multiple_choices (length [GeocoderIp ''8.8.8.8''])
      (ForecastUrl 10 20) =
     Inr \<lparr>status_code = 300, status_error = [], body_text = [],
          json_body = Inr (forecast_doc [] [JInt 45])\<rparr>"
    by (simp add: world_multiple_choices_def world_defs)
  have "str_int 45 = ''45''" by code_simp
  then have run: "check_for_rain world_multiple_choices (Some ''8.8.8.8'') 50 =
     ([(''ip'', JStr ''8.8.8.8''), (''location'', JStr ''Testville''),
       (''lat'', JFloat 10), (''lng'', JFloat 20), (''rain'', JBool False),
       (''precipitation_chance'', JInt 45), (''threshold'', JInt 50),
       (''message'', JStr ''No, 45% chance of rain soon in Testville.'')],
      [GeocoderIp ''8.8.8.8'', HttpGet (ForecastUrl 10 20)])"
    by (simp add: check_for_rain_def geolocate_def weather_lookup_def fetch_defs
        world_multiple_choices_def world_defs string_defs Let_def)
  then have "map_of (fst (check_for_rain world_multiple_choices (Some ''8.8.8.8'') 50))
      ''error'' = None"
    by simp
  with r run show ?thesis by (intro conjI)
qed

subsection \<open>The sample of hours\<close>

text \<open>
  Claim C6. In every run of \<^verbatim>\<open>check_for_rain\<close> that returns a record without an
  \<^verbatim>\<open>error\<close> item, the run ended with a forecast lookup that returned a sample
  \<open>wx\<close> read from a document \<open>data\<close>. The record has the item \<^verbatim>\<open>hour_sample\<close> exactly
  when the times of the sample are not empty, and the item is these times. When the
  hourly time sequence of the document is \<open>ts\<close> (a missing sequence counting as empty),
  the times of the sample are the first three elements of \<open>ts\<close> at most, in order: the
  item is absent for an empty \<open>ts\<close> and is \<open>take 3 ts\<close> otherwise.
\<close>

theorem hour_sample_key:
  assumes "check_for_rain w ip t = (res, tr)" and "map_of res ''error'' = None"
  shows "\<exists>lat lng tr0 wx r data.
           fetch_precip_prob w lat lng tr0 = (Inr wx, tr) \<and>
           requests_get w (length tr0) (ForecastUrl lat lng) = Inr r \<and>
           json_body r = Inr data \<and>
           map_of res ''hour_sample'' =
             (if truthy (wx_times wx) then Some (wx_times wx) else None) \<and>
           (\<forall>ts. hourly_sequence data ''time'' = Some ts \<longrightarrow>
              wx_times wx = JArr (take 3 ts) \<and>
              map_of res ''hour_sample'' = (if ts = [] then None else Some (JArr (take 3 ts))))"
proof -
  from check_for_rain_success [OF assms]
  obtain ip' c lat lng tr0 wx where f: "fetch_precip_prob w lat lng tr0 = (Inr wx, tr)"
    and res: "res = success_items ip' c lat lng t (wx_prob wx) @
             (if truthy (wx_times wx) then [(''hour_sample'', wx_times wx)] else [])"
    by blast
  from fetch_precip_prob_Inr [OF f] obtain r data where
    r: "requests_get w (length tr0) (ForecastUrl lat lng) = Inr r"
    and data: "json_body r = Inr data" and rd: "read_forecast w data = Inr wx"
    by blast
  have key: "map_of res ''hour_sample'' =
      (if truthy (wx_times wx) then Some (wx_times wx) else None)"
    unfolding res map_of_success_items by simp
  have "wx_times wx = JArr (take 3 ts) \<and>
      map_of res ''hour_sample'' = (if ts = [] then None else Some (JArr (take 3 ts)))"
    if "hourly_sequence data ''time'' = Some ts" for ts
  proof -
    from read_forecast_times [OF rd that] have "wx_times wx = JArr (take 3 ts)" .
    with key show ?thesis by simp
  qed
  with f r data key show ?thesis by blast
qed

theorem hour_sample_key_witness:
  "map_of (fst (check_for_rain world_switch (Some ''5.6.7.8'') 50)) ''error'' = None \<and>
   hourly_sequence (forecast_doc
       [JStr ''T00:00'', JStr ''T01:00'', JStr ''T02:00'', JStr ''T03:00''] [JInt 10, JInt 80])
     ''time'' = Some [JStr ''T00:00'', JStr ''T01:00'', JStr ''T02:00'', JStr ''T03:00''] \<and>
   map_of (fst (check_for_rain world_switch (Some ''5.6.7.8'') 50)) ''hour_sample'' =
     Some (JArr [JStr ''T00:00'', JStr ''T01:00'', JStr ''T02:00''])"
proof -
  have e: "map_of (fst (check_for_rain world_switch (Some ''5.6.7.8'') 50)) ''error'' = None"
    by (simp add: run_switch_any success_items_def)
  have h: "hourly_sequence (forecast_doc
       [JStr ''T00:00'', JStr ''T01:00'', JStr ''T02:00'', JStr ''T03:00''] [JInt 10, JInt 80])
     ''time'' = Some [JStr ''T00:00'', JStr ''T01:00'', JStr ''T02:00'', JStr ''T03:00'']"
    by (rule hourly_sequence_forecast_doc)
  from hour_sample_key [OF prod.collapse [symmetric] e]
  obtain lat lng tr0 wx r data where all:
    "fetch_precip_prob world_switch lat lng tr0 =
       (Inr wx, snd (check_for_rain world_switch (Some ''5.6.7.8'') 50)) \<and>
     requests_get world_switch (length tr0) (ForecastUrl lat lng) = Inr r \<and>
     json_body r = Inr data \<and>
     map_of (fst (check_for_rain world_switch (Some ''5.6.7.8'') 50)) ''hour_sample'' =
       (if truthy (wx_times wx) then Some (wx_times wx) else None) \<and>
     (\<forall>ts. hourly_sequence data ''time'' = Some ts \<longrightarrow>
        wx_times wx = JArr (take 3 ts) \<and>
        map_of (fst (check_for_rain world_switch (Some ''5.6.7.8'') 50)) ''hour_sample'' =
          (if ts = [] then None else Some (JArr (take 3 ts))))"
    by (elim exE) (rule that)
  then have r: "requests_get world_switch (length tr0) (ForecastUrl lat lng) = Inr r"
    and data: "json_body r = Inr data"
    and key: "\<forall>ts. hourly_sequence data ''time'' = Some ts \<longrightarrow>
      map_of (fst (check_for_rain world_switch (Some ''5.6.7.8'') 50)) ''hour_sample'' =
        (if ts = [] then None else Some (JArr (take 3 ts)))"
    by simp_all
  from r data have "data = forecast_doc
       [JStr ''T00:00'', JStr ''T01:00'', JStr ''T02:00'', JStr ''T03:00''] [JInt 10, JInt 80]"
    by (auto simp: forecast_switch)
  with key h
  have "map_of (fst (check_for_rain world_switch (Some ''5.6.7.8'') 50)) ''hour_sample'' =
     Some (JArr [JStr ''T00:00'', JStr ''T01:00'', JStr ''T02:00''])"
    by simp
  with e h show ?thesis by simp
qed

subsection \<open>The two shapes of a result\<close>

text \<open>
  Claim C7. For every world and every argument, \<^verbatim>\<open>check_for_rain\<close> returns either a
  record whose only item is \<^verbatim>\<open>error\<close>, holding a string, or a record whose keys are
  the eight keys of a success, followed or not by \<^verbatim>\<open>hour_sample\<close>, none of which is
  \<^verbatim>\<open>error\<close>. An error record holds none of the success items and a success record
  lacks none of the eight. The function returns a record in every case: no exception
  of a callee is passed on to the caller.
\<close>

theorem result_shape:
  "(\<exists>m. fst (check_for_rain w ip t) = [(''error'', JStr m)]) \<or>
   (map_of (fst (check_for_rain w ip t)) ''error'' = None \<and>
    (map fst (fst (check_for_rain w ip t)) =
       [''ip'', ''location'', ''lat'', ''lng'', ''rain'', ''precipitation_chance'',
        ''threshold'', ''message''] \<or>
     map fst (fst (check_for_rain w ip t)) =
       [''ip'', ''location'', ''lat'', ''lng'', ''rain'', ''precipitation_chance'',
        ''threshold'', ''message'', ''hour_sample'']))"
proof -
  from check_for_rain_cases [of w ip t]
  consider m where "fst (check_for_rain w ip t) = [(''error'', JStr m)]"
    | ip' lat lng c tr0 where "check_for_rain w ip t = weather_lookup w ip' lat lng c t tr0"
    by blast
  then show ?thesis
  proof cases
    case 1
    then show ?thesis by blast
  next
    case 2
    from weather_lookup_cases [of w lat lng tr0 ip' c t] show ?thesis
      unfolding 2 by (auto simp: success_items_def)
  qed
qed

subsection \<open>Discovery of the public IP\<close>

text \<open>
  Claim C8. \<^verbatim>\<open>_get_public_ip\<close> has three distinct endpoints. It asks them in order,
  each once at most, and returns the stripped text of the first one whose answer is a
  response with a text that is not empty once stripped; an endpoint that raises a
  \<^verbatim>\<open>RequestException\<close> or whose stripped text is empty is passed over (\<open>swallowed\<close>)
  and the next one is asked. When all three are passed over it raises the
  \<^verbatim>\<open>RuntimeError\<close> ``Could not determine public IP from fallback services.'' The
  trace shows the requests made: one for each endpoint up to the one that answered.
\<close>

theorem public_ip_discovery:
  "length endpoints = 3 \<and> distinct endpoints \<and>
   (endpoint_answer w tr 0 = Inr r \<and> strip (body_text r) \<noteq> [] \<longrightarrow>
      get_public_ip w tr =
        (Inr (strip (body_text r)), tr @ discovery_calls (take 1 endpoints))) \<and>
   (swallowed (endpoint_answer w tr 0) \<and>
    endpoint_answer w tr 1 = Inr r \<and> strip (body_text r) \<noteq> [] \<longrightarrow>
      get_public_ip w tr =
        (Inr (strip (body_text r)), tr @ discovery_calls (take 2 endpoints))) \<and>
   (swallowed (endpoint_answer w tr 0) \<and> swallowed (endpoint_answer w tr 1) \<and>
    endpoint_answer w tr 2 = Inr r \<and> strip (body_text r) \<noteq> [] \<longrightarrow>
      get_public_ip w tr =
        (Inr (strip (body_text r)), tr @ discovery_calls (take 3 endpoints))) \<and>
   (swallowed (endpoint_answer w tr 0) \<and> swallowed (endpoint_answer w tr 1) \<and>
    swallowed (endpoint_answer w tr 2) \<longrightarrow>
      get_public_ip w tr =
        (Inl (RuntimeError ''Could not determine public IP from fallback services.''),
         tr @ discovery_calls endpoints))"
proof (intro conjI impI)
  show "length endpoints = 3" "distinct endpoints"
    by (simp_all add: endpoints_def)
next
  assume "endpoint_answer w tr 0 = Inr r \<and> strip (body_text r) \<noteq> []"
  then show "get_public_ip w tr =
        (Inr (strip (body_text r)), tr @ discovery_calls (take 1 endpoints))"
    using try_endpoints_found [of 0 endpoints w tr r]
    by (simp add: get_public_ip_def endpoint_answer_def endpoints_def)
next
  assume a: "swallowed (endpoint_answer w tr 0) \<and>
    endpoint_answer w tr 1 = Inr r \<and> strip (body_text r) \<noteq> []"
  then have "\<forall>j<1. swallowed (requests_get w (length tr + j) (Url (endpoints ! j)))"
    by (simp add: endpoint_answer_def)
  with a show "get_public_ip w tr =
        (Inr (strip (body_text r)), tr @ discovery_calls (take 2 endpoints))"
    using try_endpoints_found [of 1 endpoints w tr r]
    by (simp add: get_public_ip_def endpoint_answer_def endpoints_def numeral_2_eq_2)
next
  assume a: "swallowed (endpoint_answer w tr 0) \<and> swallowed (endpoint_answer w tr 1) \<and>
    endpoint_answer w tr 2 = Inr r \<and> strip (body_text r) \<noteq> []"
  then have "\<forall>j<2. swallowed (requests_get w (length tr + j) (Url (endpoints ! j)))"
    by (simp add: endpoint_answer_def less_Suc_eq numeral_2_eq_2)
  with a show "get_public_ip w tr =
        (Inr (strip (body_text r)), tr @ discovery_calls (take 3 endpoints))"
    using try_endpoints_found [of 2 endpoints w tr r]
    by (simp add: get_public_ip_def endpoint_answer_def endpoints_def numeral_3_eq_3)
next
  assume a: "swallowed (endpoint_answer w tr 0) \<and> swallowed (endpoint_answer w tr 1) \<and>
    swallowed (endpoint_answer w tr 2)"
  have "length endpoints = 3" by (simp add: endpoints_def)
  with a have "\<forall>j<length endpoints. swallowed (requests_get w (length tr + j) (Url (endpoints ! j)))"
    by (simp add: endpoint_answer_def less_Suc_eq numeral_2_eq_2 numeral_3_eq_3)
  then show "get_public_ip w tr =
        (Inl (RuntimeError ''Could not determine public IP from fallback services.''),
         tr @ discovery_calls endpoints)"
    unfolding get_public_ip_def by (rule try_endpoints_exhausted)
qed

theorem public_ip_discovery_witness:
  "swallowed (endpoint_answer world_third_endpoint [] 0) \<and>
   swallowed (endpoint_answer world_third_endpoint [] 1) \<and>
   endpoint_answer world_third_endpoint [] 2 =
     Inr \<lparr>status_code = 200, status_error = [], body_text = '' 7.7.7.7'' @ [CHR 0x0A],
          json_body = Inl (OtherException ''not JSON'')\<rparr> \<and>
   strip ('' 7.7.7.7'' @ [CHR 0x0A]) = ''7.7.7.7'' \<and>
   get_public_ip world_third_endpoint [] =
     (Inr ''7.7.7.7'',
      [HttpGet (Url ''https://api.ipify.org''), HttpGet (Url ''https://ipinfo.io/ip''),
       HttpGet (Url ''https://icanhazip.com'')])"
proof -
  have a0: "swallowed (endpoint_answer world_third_endpoint [] 0)"
    by (simp add: swallowed_def endpoint_answer_def endpoints_def world_third_endpoint_def
        world_defs)
  have a1: "swallowed (endpoint_answer world_third_endpoint [] 1)"
    by (simp add: swallowed_def endpoint_answer_def endpoints_def world_third_endpoint_def
        world_defs string_defs)
  have a2: "endpoint_answer world_third_endpoint [] 2 =
     Inr \<lparr>status_code = 200, status_error = [], body_text = '' 7.7.7.7'' @ [CHR 0x0A],
          json_body = Inl (OtherException ''not JSON'')\<rparr>"
    by (simp add: endpoint_answer_def endpoints_def world_third_endpoint_def world_defs)
  have s: "strip ('' 7.7.7.7'' @ [CHR 0x0A]) = ''7.7.7.7''"
    by (simp add: string_defs)
  from public_ip_discovery [of world_third_endpoint "[]"
      "\<lparr>status_code = 200, status_error = [], body_text = '' 7.7.7.7'' @ [CHR 0x0A],
          json_body = Inl (OtherException ''not JSON'')\<rparr>"] a0 a1 a2 s
  have "get_public_ip world_third_endpoint [] =
     (Inr ''7.7.7.7'', [] @ discovery_calls (take 3 endpoints))"
    by simp
  then have "get_public_ip world_third_endpoint [] =
     (Inr ''7.7.7.7'',
      [HttpGet (Url ''https://api.ipify.org''), HttpGet (Url ''https://ipinfo.io/ip''),
       HttpGet (Url ''https://icanhazip.com'')])"
    by (simp add: discovery_calls_def endpoints_def)
  with a0 a1 a2 s show ?thesis by simp
qed

subsection \<open>Geolocation\<close>

text \<open>
  Claim C9. When the provider returns a report \<open>g\<close> for the address \<open>ip\<close>, the local
  function \<^verbatim>\<open>geolocate\<close> succeeds exactly when the report is ok and has a pair of
  coordinates; otherwise it raises the \<^verbatim>\<open>RuntimeError\<close> ``Could not geolocate IP ''
  followed by \<open>ip\<close> and a full stop. On success it returns the coordinates of the report
  and its city, or ``your area'' when the report has no city or an empty one.
\<close>

theorem geolocate_outcome:
  assumes "geocoder_ip w (length tr) ip = Inr g"
  shows "((\<exists>loc. fst (geolocate w ip tr) = Inr loc) \<longleftrightarrow> (ok g \<and> latlng g \<noteq> None)) \<and>
    (\<not> (ok g \<and> latlng g \<noteq> None) \<longrightarrow>
       fst (geolocate w ip tr) = Inl (RuntimeError (''Could not geolocate IP '' @ ip @ ''.''))) \<and>
    (ok g \<and> latlng g = Some (lat, lng) \<and> (city g = None \<or> city g = Some []) \<longrightarrow>
       fst (geolocate w ip tr) = Inr (lat, lng, ''your area'')) \<and>
    (ok g \<and> latlng g = Some (lat, lng) \<and> city g = Some c \<and> c \<noteq> [] \<longrightarrow>
       fst (geolocate w ip tr) = Inr (lat, lng, c))"
  using assms
  by (auto simp: geolocate_def and_then_def split: option.splits bool.splits prod.splits)

theorem geolocate_outcome_witness:
  "geocoder_ip world_switch (length ([] :: trace)) ''9.9.9.9'' =
     Inr \<lparr>ok = True, latlng = Some (30, 40), city = None\<rparr> \<and>
   fst (geolocate world_switch ''9.9.9.9'' []) = Inr (30, 40, ''your area'') \<and>
   geocoder_ip world_switch (length ([] :: trace)) ''5.6.7.8'' =
     Inr \<lparr>ok = False, latlng = None, city = None\<rparr> \<and>
   fst (geolocate world_switch ''5.6.7.8'' []) =
     Inl (RuntimeError ''Could not geolocate IP 5.6.7.8.'')"
proof -
  have a: "geocoder_ip world_switch (length ([] :: trace)) ''9.9.9.9'' =
     Inr \<lparr>ok = True, latlng = Some (30, 40), city = None\<rparr>"
    by (simp add: world_switch_def world_defs)
  have b: "geocoder_ip world_switch (length ([] :: trace)) ''5.6.7.8'' =
     Inr \<lparr>ok = False, latlng = None, city = None\<rparr>"
    by (simp add: world_switch_def world_defs)
  from geolocate_outcome [OF a, of 30 40]
  have "fst (geolocate world_switch ''9.9.9.9'' []) = Inr (30, 40, ''your area'')"
    by simp
  moreover from geolocate_outcome [OF b]
  have "fst (geolocate world_switch ''5.6.7.8'' []) =
     Inl (RuntimeError ''Could not geolocate IP 5.6.7.8.'')"
    by simp
  ultimately show ?thesis using a b by simp
qed

subsection \<open>\<^verbatim>\<open>None\<close> and blank addresses\<close>

text \<open>
  Claim C10. \<^verbatim>\<open>check_for_rain\<close> returns the same result and makes the same calls
  for \<^verbatim>\<open>None\<close>, for the empty string and for every string of blanks only, and with
  these arguments the run starts with the discovery of the public IP. (It returns a
  record in every case, so it does not raise.)
\<close>

theorem blank_ip_is_auto_detected:
  "check_for_rain w None t = check_for_rain w (Some []) t \<and>
   ((\<forall>c \<in> set s. isspace c) \<longrightarrow> check_for_rain w (Some s) t = check_for_rain w (Some []) t) \<and>
   (\<exists>rest. snd (check_for_rain w (Some []) t) = snd (get_public_ip w []) @ rest)"
proof (intro conjI impI)
  show "check_for_rain w None t = check_for_rain w (Some []) t"
    by (rule check_for_rain_arg_ip) (simp add: arg_ip_def)
  show "\<exists>rest. snd (check_for_rain w (Some []) t) = snd (get_public_ip w []) @ rest"
    by (rule blank_starts_with_discovery) (simp add: arg_ip_def strip_def)
next
  assume "\<forall>c \<in> set s. isspace c"
  then have "strip s = []" by (simp add: strip_Nil_iff)
  then show "check_for_rain w (Some s) t = check_for_rain w (Some []) t"
    by (intro check_for_rain_arg_ip) (simp add: arg_ip_def strip_def)
qed

theorem blank_ip_is_auto_detected_witness:
  "isspace (CHR '' '') \<and> isspace (CHR 0x09) \<and>
   check_for_rain world_testville (Some [CHR '' '', CHR 0x09]) 20 =
     check_for_rain world_testville (Some []) 20 \<and>
   check_for_rain world_testville (Some []) 20 = check_for_rain world_testville None 20 \<and>
   snd (check_for_rain world_testville None 20) =
     [HttpGet (Url ''https://api.ipify.org''), GeocoderIp ''1.2.3.4'',
      HttpGet (ForecastUrl 10 20)]"
proof -
  have sp: "isspace (CHR '' '')" "isspace (CHR 0x09)" by (simp_all add: isspace_def)
  then have "\<forall>c \<in> set [CHR '' '', CHR 0x09]. isspace c" by simp
  with blank_ip_is_auto_detected [of world_testville 20 "[CHR '' '', CHR 0x09]"]
  have "check_for_rain world_testville (Some [CHR '' '', CHR 0x09]) 20 =
     check_for_rain world_testville (Some []) 20"
    and "check_for_rain world_testville (Some []) 20 = check_for_rain world_testville None 20"
    by simp_all
  with sp show ?thesis by (simp add: run_testville)
qed

end
